theory Spec2Isabelle
  imports Main "HOL-Library.AList"
begin

section \<open>Values of the host language\<close>

text \<open>
  The script mode is written in TypeScript. Where the source reads untyped data
  (\<^verbatim>\<open>config: any\<close>, the formatting options handed to lodash's \<^verbatim>\<open>_.assign\<close>) the
  model uses a small datatype of JavaScript values; an object is the list of its own
  properties in insertion order.
\<close>

datatype jsval =
    JUndefined | JNull | JBool bool | JNum int | JStr string
  | JObj "(string \<times> jsval) list"

text \<open>Every exception the modelled code can raise is a \<^verbatim>\<open>TypeError\<close> on reading from
  \<^verbatim>\<open>undefined\<close> or \<^verbatim>\<open>null\<close>.\<close>

datatype error = TypeError

text \<open>A value that is a string, \<^verbatim>\<open>null\<close> or \<^verbatim>\<open>undefined\<close>
  (\<^verbatim>\<open>workspacePath: string | null | undefined\<close>).\<close>

datatype 'a nullable = Null | Undefined | Value 'a

fun truthy :: "jsval \<Rightarrow> bool" where
  "truthy JUndefined = False"
| "truthy JNull = False"
| "truthy (JBool b) = b"
| "truthy (JNum n) = (n \<noteq> 0)"
| "truthy (JStr s) = (s \<noteq> [])"
| "truthy (JObj ps) = True"

text \<open>
  \<^verbatim>\<open>o.k\<close> for the keys this module reads (\<^verbatim>\<open>vetur\<close>, \<^verbatim>\<open>format\<close>, \<^verbatim>\<open>js\<close>,
  \<^verbatim>\<open>InsertSpaceBeforeFunctionParenthesis\<close>): reading from \<^verbatim>\<open>undefined\<close> or \<^verbatim>\<open>null\<close>
  throws, a key the object does not have reads as \<^verbatim>\<open>undefined\<close>, and so does any of
  these keys on a primitive.
\<close>

fun get_prop :: "jsval \<Rightarrow> string \<Rightarrow> error + jsval" where
  "get_prop JUndefined k = Inl TypeError"
| "get_prop JNull k = Inl TypeError"
| "get_prop (JObj ps) k = Inr (case map_of ps k of None \<Rightarrow> JUndefined | Some v \<Rightarrow> v)"
| "get_prop (JBool b) k = Inr JUndefined"
| "get_prop (JNum n) k = Inr JUndefined"
| "get_prop (JStr s) k = Inr JUndefined"

section \<open>Positions, ranges, spans and text documents\<close>

record Position =
  line :: nat
  character :: nat

record Range =
  range_start :: Position
  range_end :: Position

text \<open>The engine's span: \<^verbatim>\<open>ts.TextSpan\<close> with its fields \<^verbatim>\<open>start\<close> and \<^verbatim>\<open>length\<close>.\<close>

record TextSpan =
  span_start :: nat
  span_length :: nat

record TextDocument =
  uri :: string
  languageId :: string
  content :: string

subsection \<open>The text document's offset lookup\<close>

text \<open>
  Modelled from the spec: \<^verbatim>\<open>TextDocument.positionAt\<close> and \<^verbatim>\<open>TextDocument.offsetAt\<close>
  belong to the protocol-types library the module imports and are not part of the
  sources at hand. The spec has \<^verbatim>\<open>spanToRange\<close> resolve offsets "against the document
  to line/column positions" and names \<^verbatim>\<open>offsetAt\<close> "the inverse offset lookup". The
  model follows the library's full-text document: a table of the offsets at which lines
  start (a line ends at a line feed, a carriage return, or a carriage return followed by a
  line feed), a binary search of that table in \<^verbatim>\<open>positionAt\<close>, and clamping of
  out-of-range arguments in both directions. Offsets, lines and columns are natural
  numbers, so the library's clamping at zero has no case here.
\<close>

definition CR :: char where "CR = CHR 0x0D"
definition LF :: char where "LF = CHR 0x0A"

fun lineOffsetsFrom :: "nat \<Rightarrow> bool \<Rightarrow> string \<Rightarrow> nat list" where
  "lineOffsetsFrom i isLineStart [] = (if isLineStart \<and> 0 < i then [i] else [])"
| "lineOffsetsFrom i isLineStart [ch] =
     (if isLineStart then [i] else []) @ lineOffsetsFrom (i + 1) (ch = CR \<or> ch = LF) []"
| "lineOffsetsFrom i isLineStart (ch # ch' # rest) =
     (if isLineStart then [i] else []) @
     (if ch = CR \<and> ch' = LF then lineOffsetsFrom (i + 2) True rest
      else lineOffsetsFrom (i + 1) (ch = CR \<or> ch = LF) (ch' # rest))"

definition getLineOffsets :: "TextDocument \<Rightarrow> nat list" where
  "getLineOffsets document = lineOffsetsFrom 0 True (content document)"

text \<open>The binary search of \<^verbatim>\<open>positionAt\<close>: the least index whose line offset is larger
  than the offset, or \<^verbatim>\<open>high\<close> if there is none.\<close>

function findLine :: "nat list \<Rightarrow> nat \<Rightarrow> nat \<Rightarrow> nat \<Rightarrow> nat" where
  "findLine lineOffsets offset low high =
     (if low < high then
        (let mid = (low + high) div 2 in
         if lineOffsets ! mid > offset then findLine lineOffsets offset low mid
         else findLine lineOffsets offset (mid + 1) high)
      else low)"
  by pat_completeness auto
termination
  by (relation "measure (\<lambda>(lineOffsets, offset, low, high). high - low)") auto

declare findLine.simps [simp del]

definition positionAt :: "TextDocument \<Rightarrow> nat \<Rightarrow> Position" where
  "positionAt document offset0 =
     (let offset = min offset0 (length (content document));
          lineOffsets = getLineOffsets document;
          high = length lineOffsets
      in if high = 0 then \<lparr>line = 0, character = offset\<rparr>
         else (let line = findLine lineOffsets offset 0 high - 1
               in \<lparr>line = line, character = offset - lineOffsets ! line\<rparr>))"

definition offsetAt :: "TextDocument \<Rightarrow> Position \<Rightarrow> nat" where
  "offsetAt document position =
     (let lineOffsets = getLineOffsets document in
      if line position \<ge> length lineOffsets then length (content document)
      else (let lineOffset = lineOffsets ! line position;
                nextLineOffset =
                  (if line position + 1 < length lineOffsets
                   then lineOffsets ! (line position + 1)
                   else length (content document))
            in max (min (lineOffset + character position) nextLineOffset) lineOffset))"

text \<open>\<^verbatim>\<open>convertRange\<close> (the spec's \<^verbatim>\<open>spanToRange\<close>).\<close>

definition convertRange :: "TextDocument \<Rightarrow> TextSpan \<Rightarrow> Range" where
  "convertRange document span =
     (let startPosition = positionAt document (span_start span);
          endPosition = positionAt document (span_start span + span_length span)
      in \<lparr>range_start = startPosition, range_end = endPosition\<rparr>)"


section \<open>Result classifiers\<close>

text \<open>The members of the protocol's two kind vocabularies that the script mode produces.\<close>

datatype CompletionItemKind =
    CIK_Keyword | CIK_Variable | CIK_Field | CIK_Function | CIK_Enum | CIK_Module
  | CIK_Class | CIK_Interface | CIK_File | CIK_Property

datatype SymbolKind =
    SK_Variable | SK_Function | SK_Enum | SK_Module | SK_Class | SK_Interface
  | SK_Method | SK_Property

text \<open>The \<^verbatim>\<open>switch\<close> of \<^verbatim>\<open>convertKind\<close>, case by case, with the \<^verbatim>\<open>return\<close> after it.\<close>

definition convertKind :: "string \<Rightarrow> CompletionItemKind" where
  "convertKind kind =
     (if kind = ''primitive type'' \<or> kind = ''keyword'' then CIK_Keyword
      else if kind = ''var'' \<or> kind = ''local var'' then CIK_Variable
      else if kind = ''property'' \<or> kind = ''getter'' \<or> kind = ''setter'' then CIK_Field
      else if kind = ''function'' \<or> kind = ''method'' \<or> kind = ''construct''
              \<or> kind = ''call'' \<or> kind = ''index'' then CIK_Function
      else if kind = ''enum'' then CIK_Enum
      else if kind = ''module'' then CIK_Module
      else if kind = ''class'' then CIK_Class
      else if kind = ''interface'' then CIK_Interface
      else if kind = ''warning'' then CIK_File
      else CIK_Property)"

definition convertSymbolKind :: "string \<Rightarrow> SymbolKind" where
  "convertSymbolKind kind =
     (if kind = ''var'' \<or> kind = ''local var'' \<or> kind = ''const'' then SK_Variable
      else if kind = ''function'' \<or> kind = ''local function'' then SK_Function
      else if kind = ''enum'' then SK_Enum
      else if kind = ''module'' then SK_Module
      else if kind = ''class'' then SK_Class
      else if kind = ''interface'' then SK_Interface
      else if kind = ''method'' then SK_Method
      else if kind = ''property'' \<or> kind = ''getter'' \<or> kind = ''setter'' then SK_Property
      else SK_Variable)"

section \<open>The backing engine\<close>

subsection \<open>What the engine returns\<close>

text \<open>
  The TypeScript language service's result types, with the fields the script mode reads.
  Display parts are kept as the list of their texts. A result the service may leave
  \<^verbatim>\<open>undefined\<close> is an \<open>option\<close>.
\<close>

datatype message_text = MessageString string | MessageChain "string list"

record ts_Diagnostic = TextSpan +
  messageText :: message_text

record CompletionEntry =
  entry_name :: string
  entry_kind :: string
  entry_sortText :: string
  replacementSpan :: "TextSpan option"

record CompletionInfo =
  entries :: "CompletionEntry list"

record CompletionEntryDetails =
  details_displayParts :: "string list"
  details_documentation :: "string list"

record QuickInfo =
  qi_textSpan :: TextSpan
  qi_displayParts :: "string list"
  qi_documentation :: "string list"

record SignatureHelpParameter =
  p_displayParts :: "string list"
  p_documentation :: "string list"

record SignatureHelpItem =
  prefixDisplayParts :: "string list"
  suffixDisplayParts :: "string list"
  separatorDisplayParts :: "string list"
  item_parameters :: "SignatureHelpParameter list"

record SignatureHelpItems =
  sh_items :: "SignatureHelpItem list"
  selectedItemIndex :: nat
  argumentIndex :: nat

record ReferenceEntry =
  ref_fileName :: string
  ref_textSpan :: TextSpan
  isWriteAccess :: bool

record DefinitionInfo =
  def_fileName :: string
  def_textSpan :: TextSpan

record TextChange =
  change_span :: TextSpan
  change_newText :: string

text \<open>A node of the navigation tree. A node without \<^verbatim>\<open>childItems\<close> and one with an
  empty array are treated alike by the source, so the children are a list.\<close>

datatype NavigationBarItem =
  NavigationBarItem (item_text: string) (item_kind: string) (spans: "TextSpan list")
    (childItems: "NavigationBarItem list")

text \<open>The settings object handed to the formatter: its properties in insertion order.\<close>

type_synonym FormatCodeOptions = "(string \<times> jsval) list"

typedecl ComponentInfo

subsection \<open>The engine's methods and the record of the calls made\<close>

record LanguageService =
  getRootFileNames :: "string list"
  getSyntacticDiagnostics :: "string \<Rightarrow> ts_Diagnostic list"
  getSemanticDiagnostics :: "string \<Rightarrow> ts_Diagnostic list"
  getCompletionsAtPosition :: "string \<Rightarrow> nat \<Rightarrow> CompletionInfo option"
  getCompletionEntryDetails :: "string \<Rightarrow> nat \<Rightarrow> string \<Rightarrow> CompletionEntryDetails option"
  getQuickInfoAtPosition :: "string \<Rightarrow> nat \<Rightarrow> QuickInfo option"
  getSignatureHelpItems :: "string \<Rightarrow> nat \<Rightarrow> SignatureHelpItems option"
  getOccurrencesAtPosition :: "string \<Rightarrow> nat \<Rightarrow> ReferenceEntry list option"
  getNavigationBarItems :: "string \<Rightarrow> NavigationBarItem list option"
  getDefinitionAtPosition :: "string \<Rightarrow> nat \<Rightarrow> DefinitionInfo list option"
  getReferencesAtPosition :: "string \<Rightarrow> nat \<Rightarrow> ReferenceEntry list option"
  getFormattingEditsForRange ::
    "string \<Rightarrow> nat \<Rightarrow> nat \<Rightarrow> FormatCodeOptions \<Rightarrow> TextChange list option"

text \<open>
  Every operation of the mode returns, beside its result, the engine methods it invoked,
  in order. \<open>GetRootFileNames\<close> is \<^verbatim>\<open>ls.getProgram().getRootFileNames()\<close>, the membership
  check; \<open>FindComponents\<close> is the hand-over of the service to the component discovery.
\<close>

datatype engine_call =
    GetRootFileNames
  | GetSyntacticDiagnostics string
  | GetSemanticDiagnostics string
  | GetCompletionsAtPosition string nat
  | GetCompletionEntryDetails string nat string
  | GetQuickInfoAtPosition string nat
  | GetSignatureHelpItems string nat
  | GetOccurrencesAtPosition string nat
  | GetNavigationBarItems string
  | GetDefinitionAtPosition string nat
  | GetReferencesAtPosition string nat
  | GetFormattingEditsForRange string nat nat FormatCodeOptions
  | FindComponents string

subsection \<open>Collaborators outside the module\<close>

text \<open>
  Functions the module imports and whose code is elsewhere are parameters of the model:
  the two path conversions of \<^verbatim>\<open>./preprocess\<close>, \<^verbatim>\<open>Uri.file(p).toString()\<close>, the two
  text renderers of the TypeScript library, and the component discovery of
  \<^verbatim>\<open>./findComponents\<close>.
\<close>

record externals =
  getFilePath :: "string \<Rightarrow> string"
  getFileFsPath :: "string \<Rightarrow> string"
  Uri_file :: "string \<Rightarrow> string"
  displayPartsToString :: "string list \<Rightarrow> string"
  flattenDiagnosticMessageText :: "message_text \<Rightarrow> string \<Rightarrow> string"
  ext_findComponents :: "LanguageService \<Rightarrow> string \<Rightarrow> ComponentInfo list"

text \<open>
  The service host of \<^verbatim>\<open>./serviceHost\<close>: \<^verbatim>\<open>updateCurrentTextDocument\<close> refreshes the
  synthetic view of a host document and returns it with the live service;
  \<^verbatim>\<open>getScriptDocByFsPath\<close> looks a script document up by path.
\<close>

record ServiceHost =
  updateCurrentTextDocument :: "TextDocument \<Rightarrow> TextDocument \<times> LanguageService"
  getScriptDocByFsPath :: "string \<Rightarrow> TextDocument option"


section \<open>What the mode returns to the protocol layer\<close>

datatype DiagnosticSeverity = DS_Error | DS_Warning | DS_Information | DS_Hint

record Diagnostic =
  diag_range :: Range
  severity :: DiagnosticSeverity
  message :: string

record TextEdit =
  edit_range :: Range
  newText :: string

definition TextEdit_replace :: "Range \<Rightarrow> string \<Rightarrow> TextEdit" where
  "TextEdit_replace rng text = \<lparr>edit_range = rng, newText = text\<rparr>"

text \<open>The correlation payload of a completion item (\<^verbatim>\<open>item.data\<close>).\<close>

record CompletionData =
  data_languageId :: string
  data_uri :: string
  data_offset :: nat

text \<open>A completion item; a property the object does not carry is \<open>None\<close>. The items of
  \<^verbatim>\<open>doComplete\<close> carry \<^verbatim>\<open>uri\<close> and \<^verbatim>\<open>position\<close> beside the protocol's fields.\<close>

record CompletionItem =
  label :: string
  ci_kind :: "CompletionItemKind option"
  sortText :: "string option"
  textEdit :: "TextEdit option"
  detail :: "string option"
  documentation :: "string option"
  data :: "CompletionData option"
  ci_uri :: "string option"
  ci_position :: "Position option"

record CompletionList =
  isIncomplete :: bool
  items :: "CompletionItem list"

datatype MarkedString = MarkedText string | MarkedCode string string

record Hover =
  hover_range :: "Range option"
  contents :: "MarkedString list"

record ParameterInformation =
  param_label :: string
  param_documentation :: string

record SignatureInformation =
  sig_label :: string
  sig_documentation :: "string option"
  sig_parameters :: "ParameterInformation list"

record SignatureHelp =
  activeSignature :: nat
  activeParameter :: nat
  signatures :: "SignatureInformation list"

datatype DocumentHighlightKind = DHK_Text | DHK_Read | DHK_Write

record DocumentHighlight =
  hl_range :: Range
  hl_kind :: DocumentHighlightKind

record Location =
  loc_uri :: string
  loc_range :: Range

record SymbolInformation =
  sym_name :: string
  sym_kind :: SymbolKind
  location :: Location
  containerName :: "string option"

text \<open>
  \<^verbatim>\<open>NULL_SIGNATURE\<close> and \<^verbatim>\<open>NULL_COMPLETION\<close> are constants of \<^verbatim>\<open>../nullMode\<close>, whose
  code is elsewhere; a result that is one of them is kept as that constant.
\<close>

datatype signature_result = NULL_SIGNATURE | Signature SignatureHelp

datatype resolve_result = NULL_COMPLETION | Resolved CompletionItem

record FormattingOptions =
  tabSize :: int
  insertSpaces :: bool
  scriptInitialIndent :: jsval

section \<open>The script mode\<close>

subsection \<open>Program-membership guard\<close>

definition languageServiceIncludesFile :: "externals \<Rightarrow> LanguageService \<Rightarrow> string \<Rightarrow> bool" where
  "languageServiceIncludesFile ext ls documentUri =
     (let filePaths = getRootFileNames ls;
          filePath = getFilePath ext documentUri
      in filePath \<in> set filePaths)"

subsection \<open>Validation\<close>

definition doValidation ::
  "externals \<Rightarrow> ServiceHost \<Rightarrow> TextDocument \<Rightarrow> engine_call list \<times> Diagnostic list" where
  "doValidation ext host doc =
     (let (scriptDoc, service) = updateCurrentTextDocument host doc in
      if \<not> languageServiceIncludesFile ext service (uri doc) then ([GetRootFileNames], [])
      else
        (let fileFsPath = getFileFsPath ext (uri doc);
             diagnostics = getSyntacticDiagnostics service fileFsPath
                           @ getSemanticDiagnostics service fileFsPath
         in ([GetRootFileNames, GetSyntacticDiagnostics fileFsPath,
              GetSemanticDiagnostics fileFsPath],
             map (\<lambda>diag.
                    \<lparr>diag_range = convertRange scriptDoc (TextSpan.truncate diag),
                     severity = DS_Error,
                     message = flattenDiagnosticMessageText ext (messageText diag) [CHR 0x0A]\<rparr>)
                 diagnostics)))"

subsection \<open>Completion and its deferred resolve\<close>

definition doComplete ::
  "externals \<Rightarrow> ServiceHost \<Rightarrow> TextDocument \<Rightarrow> Position
     \<Rightarrow> engine_call list \<times> CompletionList" where
  "doComplete ext host doc position =
     (let (scriptDoc, service) = updateCurrentTextDocument host doc in
      if \<not> languageServiceIncludesFile ext service (uri doc)
      then ([GetRootFileNames], \<lparr>isIncomplete = False, items = []\<rparr>)
      else
        (let fileFsPath = getFileFsPath ext (uri doc);
             offset = offsetAt scriptDoc position;
             calls = [GetRootFileNames, GetCompletionsAtPosition fileFsPath offset]
         in case getCompletionsAtPosition service fileFsPath offset of
              None \<Rightarrow> (calls, \<lparr>isIncomplete = False, items = []\<rparr>)
            | Some completions \<Rightarrow>
                (let entries' = filter (\<lambda>entry. entry_name entry \<noteq> ''__vueEditorBridge'')
                                  (entries completions)
                 in (calls,
                     \<lparr>isIncomplete = False,
                      items =
                        map (\<lambda>entry.
                               (let rng = map_option (convertRange scriptDoc)
                                              (replacementSpan entry)
                                in \<lparr>label = entry_name entry,
                                    ci_kind = Some (convertKind (entry_kind entry)),
                                    sortText = Some (entry_sortText entry),
                                    textEdit = map_option
                                      (\<lambda>r. TextEdit_replace r (entry_name entry)) rng,
                                    detail = None,
                                    documentation = None,
                                    data = Some \<lparr>data_languageId = languageId doc,
                                                  data_uri = uri doc,
                                                  data_offset = offset\<rparr>,
                                    ci_uri = Some (uri doc),
                                    ci_position = Some position\<rparr>))
                            entries'\<rparr>))))"

text \<open>\<^verbatim>\<open>doResolve\<close> updates the item it is given and returns it; reading
  \<^verbatim>\<open>item.data.offset\<close> from an item without \<^verbatim>\<open>data\<close> throws.\<close>

definition doResolve ::
  "externals \<Rightarrow> ServiceHost \<Rightarrow> TextDocument \<Rightarrow> CompletionItem
     \<Rightarrow> engine_call list \<times> (error + resolve_result)" where
  "doResolve ext host doc item =
     (let (scriptDoc, service) = updateCurrentTextDocument host doc in
      if \<not> languageServiceIncludesFile ext service (uri doc)
      then ([GetRootFileNames], Inr NULL_COMPLETION)
      else
        (let fileFsPath = getFileFsPath ext (uri doc)
         in case data item of
              None \<Rightarrow> ([GetRootFileNames], Inl TypeError)
            | Some d \<Rightarrow>
                (let calls = [GetRootFileNames,
                              GetCompletionEntryDetails fileFsPath (data_offset d) (label item)]
                 in case getCompletionEntryDetails service fileFsPath (data_offset d) (label item) of
                      Some details \<Rightarrow>
                        (calls,
                         Inr (Resolved
                           (item\<lparr>detail :=
                                    Some (displayPartsToString ext (details_displayParts details)),
                                  documentation :=
                                    Some (displayPartsToString ext (details_documentation details)),
                                  data := None\<rparr>)))
                    | None \<Rightarrow> (calls, Inr (Resolved item)))))"

subsection \<open>Hover, signature help, highlights\<close>

definition doHover ::
  "externals \<Rightarrow> ServiceHost \<Rightarrow> TextDocument \<Rightarrow> Position \<Rightarrow> engine_call list \<times> Hover" where
  "doHover ext host doc position =
     (let (scriptDoc, service) = updateCurrentTextDocument host doc in
      if \<not> languageServiceIncludesFile ext service (uri doc)
      then ([GetRootFileNames], \<lparr>hover_range = None, contents = []\<rparr>)
      else
        (let fileFsPath = getFileFsPath ext (uri doc);
             offset = offsetAt scriptDoc position;
             calls = [GetRootFileNames, GetQuickInfoAtPosition fileFsPath offset]
         in case getQuickInfoAtPosition service fileFsPath offset of
              Some info \<Rightarrow>
                (let display = displayPartsToString ext (qi_displayParts info);
                     doc' = displayPartsToString ext (qi_documentation info);
                     markedContents = [MarkedCode ''ts'' display];
                     markedContents' =
                       (if doc' \<noteq> [] then [MarkedText doc', MarkedText [CHR 0x0A]] @ markedContents
                        else markedContents)
                 in (calls,
                     \<lparr>hover_range = Some (convertRange scriptDoc (qi_textSpan info)),
                      contents = markedContents'\<rparr>))
            | None \<Rightarrow> (calls, \<lparr>hover_range = None, contents = []\<rparr>)))"

text \<open>The label of a signature: the parameters' labels with the separator after every
  parameter but the last.\<close>

fun parameters_label :: "externals \<Rightarrow> string \<Rightarrow> SignatureHelpParameter list \<Rightarrow> string" where
  "parameters_label ext separator [] = []"
| "parameters_label ext separator [p] = displayPartsToString ext (p_displayParts p)"
| "parameters_label ext separator (p # q # ps) =
     displayPartsToString ext (p_displayParts p) @ separator
     @ parameters_label ext separator (q # ps)"

definition signature_of :: "externals \<Rightarrow> SignatureHelpItem \<Rightarrow> SignatureInformation" where
  "signature_of ext item =
     \<lparr>sig_label =
        displayPartsToString ext (prefixDisplayParts item)
        @ parameters_label ext (displayPartsToString ext (separatorDisplayParts item))
            (item_parameters item)
        @ displayPartsToString ext (suffixDisplayParts item),
      sig_documentation = None,
      sig_parameters =
        map (\<lambda>p. \<lparr>param_label = displayPartsToString ext (p_displayParts p),
                   param_documentation = displayPartsToString ext (p_documentation p)\<rparr>)
            (item_parameters item)\<rparr>"

definition doSignatureHelp ::
  "externals \<Rightarrow> ServiceHost \<Rightarrow> TextDocument \<Rightarrow> Position
     \<Rightarrow> engine_call list \<times> signature_result" where
  "doSignatureHelp ext host doc position =
     (let (scriptDoc, service) = updateCurrentTextDocument host doc in
      if \<not> languageServiceIncludesFile ext service (uri doc)
      then ([GetRootFileNames], NULL_SIGNATURE)
      else
        (let fileFsPath = getFileFsPath ext (uri doc);
             offset = offsetAt scriptDoc position;
             calls = [GetRootFileNames, GetSignatureHelpItems fileFsPath offset]
         in case getSignatureHelpItems service fileFsPath offset of
              None \<Rightarrow> (calls, NULL_SIGNATURE)
            | Some signHelp \<Rightarrow>
                (calls,
                 Signature \<lparr>activeSignature = selectedItemIndex signHelp,
                            activeParameter = argumentIndex signHelp,
                            signatures = map (signature_of ext) (sh_items signHelp)\<rparr>)))"

definition findDocumentHighlight ::
  "externals \<Rightarrow> ServiceHost \<Rightarrow> TextDocument \<Rightarrow> Position
     \<Rightarrow> engine_call list \<times> DocumentHighlight list" where
  "findDocumentHighlight ext host doc position =
     (let (scriptDoc, service) = updateCurrentTextDocument host doc in
      if \<not> languageServiceIncludesFile ext service (uri doc) then ([GetRootFileNames], [])
      else
        (let fileFsPath = getFileFsPath ext (uri doc);
             offset = offsetAt scriptDoc position;
             calls = [GetRootFileNames, GetOccurrencesAtPosition fileFsPath offset]
         in case getOccurrencesAtPosition service fileFsPath offset of
              Some occurrences \<Rightarrow>
                (calls,
                 map (\<lambda>entry.
                        \<lparr>hl_range = convertRange scriptDoc (ref_textSpan entry),
                         hl_kind = (if isWriteAccess entry then DHK_Write else DHK_Text)\<rparr>)
                     occurrences)
            | None \<Rightarrow> (calls, [])))"

subsection \<open>Outline\<close>

text \<open>The decimal numeral of a number, as string concatenation appends it.\<close>

fun string_of_nat :: "nat \<Rightarrow> string" where
  "string_of_nat n =
     (if n < 10 then [''0123456789'' ! n]
      else string_of_nat (n div 10) @ [''0123456789'' ! (n mod 10)])"

declare string_of_nat.simps [simp del]

text \<open>
  \<^verbatim>\<open>collectSymbols\<close> appends to \<^verbatim>\<open>result\<close> and marks signatures in \<^verbatim>\<open>existing\<close>; both
  are threaded through as a pair. \<open>collectChildren\<close> is the \<^verbatim>\<open>for\<close> loop over
  \<^verbatim>\<open>item.childItems\<close> (and the \<^verbatim>\<open>forEach\<close> over the roots). A node with no span makes
  \<^verbatim>\<open>item.spans[0].start\<close> throw.
\<close>

fun collectSymbols ::
    "string \<Rightarrow> TextDocument \<Rightarrow> NavigationBarItem \<Rightarrow> string option
       \<Rightarrow> SymbolInformation list \<times> string set
       \<Rightarrow> error + SymbolInformation list \<times> string set"
  and collectChildren ::
    "string \<Rightarrow> TextDocument \<Rightarrow> NavigationBarItem list \<Rightarrow> string option
       \<Rightarrow> SymbolInformation list \<times> string set
       \<Rightarrow> error + SymbolInformation list \<times> string set"
  where
  "collectSymbols doc_uri scriptDoc (NavigationBarItem text kind sps children) containerLabel
       (result, existing) =
     (case sps of
        [] \<Rightarrow> Inl TypeError
      | span0 # _ \<Rightarrow>
          (let sig = text @ kind @ string_of_nat (span_start span0) in
           if kind \<noteq> ''script'' \<and> sig \<notin> existing then
             (let symbol = \<lparr>sym_name = text,
                            sym_kind = convertSymbolKind kind,
                            location = \<lparr>loc_uri = doc_uri,
                                        loc_range = convertRange scriptDoc span0\<rparr>,
                            containerName = containerLabel\<rparr>
              in collectChildren doc_uri scriptDoc children (Some text)
                   (result @ [symbol], insert sig existing))
           else collectChildren doc_uri scriptDoc children containerLabel (result, existing)))"
| "collectChildren doc_uri scriptDoc [] containerLabel st = Inr st"
| "collectChildren doc_uri scriptDoc (child # rest) containerLabel st =
     (case collectSymbols doc_uri scriptDoc child containerLabel st of
        Inl e \<Rightarrow> Inl e
      | Inr st' \<Rightarrow> collectChildren doc_uri scriptDoc rest containerLabel st')"

definition findDocumentSymbols ::
  "externals \<Rightarrow> ServiceHost \<Rightarrow> TextDocument
     \<Rightarrow> engine_call list \<times> (error + SymbolInformation list)" where
  "findDocumentSymbols ext host doc =
     (let (scriptDoc, service) = updateCurrentTextDocument host doc in
      if \<not> languageServiceIncludesFile ext service (uri doc)
      then ([GetRootFileNames], Inr [])
      else
        (let fileFsPath = getFileFsPath ext (uri doc);
             calls = [GetRootFileNames, GetNavigationBarItems fileFsPath]
         in case getNavigationBarItems service fileFsPath of
              Some navItems \<Rightarrow>
                (calls,
                 case collectChildren (uri doc) scriptDoc navItems None ([], {}) of
                   Inl e \<Rightarrow> Inl e
                 | Inr (result, existing) \<Rightarrow> Inr result)
            | None \<Rightarrow> (calls, Inr [])))"

subsection \<open>Definition and references\<close>

definition findDefinition ::
  "externals \<Rightarrow> ServiceHost \<Rightarrow> TextDocument \<Rightarrow> Position
     \<Rightarrow> engine_call list \<times> Location list" where
  "findDefinition ext host doc position =
     (let (scriptDoc, service) = updateCurrentTextDocument host doc in
      if \<not> languageServiceIncludesFile ext service (uri doc) then ([GetRootFileNames], [])
      else
        (let fileFsPath = getFileFsPath ext (uri doc);
             offset = offsetAt scriptDoc position;
             calls = [GetRootFileNames, GetDefinitionAtPosition fileFsPath offset]
         in case getDefinitionAtPosition service fileFsPath offset of
              None \<Rightarrow> (calls, [])
            | Some definitions \<Rightarrow>
                (calls,
                 concat (map (\<lambda>d.
                    case getScriptDocByFsPath host fileFsPath of
                      Some definitionTargetDoc \<Rightarrow>
                        [\<lparr>loc_uri = Uri_file ext (def_fileName d),
                          loc_range = convertRange definitionTargetDoc (def_textSpan d)\<rparr>]
                    | None \<Rightarrow> [])
                  definitions))))"

definition findReferences ::
  "externals \<Rightarrow> ServiceHost \<Rightarrow> TextDocument \<Rightarrow> Position
     \<Rightarrow> engine_call list \<times> Location list" where
  "findReferences ext host doc position =
     (let (scriptDoc, service) = updateCurrentTextDocument host doc in
      if \<not> languageServiceIncludesFile ext service (uri doc) then ([GetRootFileNames], [])
      else
        (let fileFsPath = getFileFsPath ext (uri doc);
             offset = offsetAt scriptDoc position;
             calls = [GetRootFileNames, GetReferencesAtPosition fileFsPath offset]
         in case getReferencesAtPosition service fileFsPath offset of
              None \<Rightarrow> (calls, [])
            | Some references \<Rightarrow>
                (calls,
                 concat (map (\<lambda>r.
                    case getScriptDocByFsPath host fileFsPath of
                      Some referenceTargetDoc \<Rightarrow>
                        [\<lparr>loc_uri = Uri_file ext (ref_fileName r),
                          loc_range = convertRange referenceTargetDoc (ref_textSpan r)\<rparr>]
                    | None \<Rightarrow> [])
                  references))))"

subsection \<open>Formatting\<close>

text \<open>
  lodash's \<^verbatim>\<open>_.assign(object, source)\<close>: every own property of a truthy source is written
  to the object, in the source's order, a new key going to the end; a string source has
  its characters under their indices; a falsy source or one without own properties
  leaves the object as it is.
\<close>

definition lodash_assign :: "(string \<times> jsval) list \<Rightarrow> jsval \<Rightarrow> (string \<times> jsval) list" where
  "lodash_assign object source =
     (case source of
        JObj ps \<Rightarrow> fold (\<lambda>(k, v) obj. AList.update k v obj) ps object
      | JStr s \<Rightarrow>
          fold (\<lambda>(k, v) obj. AList.update k v obj)
            (zip (map string_of_nat [0..<length s]) (map (\<lambda>c. JStr [c]) s)) object
      | _ \<Rightarrow> object)"

text \<open>\<^verbatim>\<open>ts.IndentStyle.Smart\<close> is the enumeration's member 2.\<close>

definition convertOptions :: "FormattingOptions \<Rightarrow> jsval \<Rightarrow> int \<Rightarrow> FormatCodeOptions" where
  "convertOptions options formatSettings initialIndentLevel =
     (let defaultJsFormattingOptions =
        [(''ConvertTabsToSpaces'', JBool (insertSpaces options)),
         (''TabSize'', JNum (tabSize options)),
         (''IndentSize'', JNum (tabSize options)),
         (''IndentStyle'', JNum 2),
         (''NewLineCharacter'', JStr [CHR 0x0A]),
         (''BaseIndentSize'', JNum (tabSize options * initialIndentLevel)),
         (''InsertSpaceAfterCommaDelimiter'', JBool True),
         (''InsertSpaceAfterSemicolonInForStatements'', JBool True),
         (''InsertSpaceAfterKeywordsInControlFlowStatements'', JBool True),
         (''InsertSpaceAfterFunctionKeywordForAnonymousFunctions'', JBool True),
         (''InsertSpaceAfterOpeningAndBeforeClosingNonemptyParenthesis'', JBool False),
         (''InsertSpaceAfterOpeningAndBeforeClosingNonemptyBrackets'', JBool False),
         (''InsertSpaceAfterOpeningAndBeforeClosingTemplateStringBraces'', JBool False),
         (''InsertSpaceBeforeFunctionParenthesis'', JBool True),
         (''InsertSpaceBeforeAndAfterBinaryOperators'', JBool True),
         (''PlaceOpenBraceOnNewLineForControlBlocks'', JBool False),
         (''PlaceOpenBraceOnNewLineForFunctions'', JBool False)]
      in lodash_assign defaultJsFormattingOptions formatSettings)"

text \<open>\<^verbatim>\<open>config.vetur.format.js\<close>, read from the mode's configuration.\<close>

definition config_vetur_format_js :: "jsval \<Rightarrow> error + jsval" where
  "config_vetur_format_js config =
     (case get_prop config ''vetur'' of
        Inl e \<Rightarrow> Inl e
      | Inr vetur \<Rightarrow>
          (case get_prop vetur ''format'' of
             Inl e \<Rightarrow> Inl e
           | Inr fmt \<Rightarrow> get_prop fmt ''js''))"

text \<open>Reading a property of the settings object handed to the engine.\<close>

definition setting :: "FormatCodeOptions \<Rightarrow> string \<Rightarrow> jsval" where
  "setting formatSettings k = (case map_of formatSettings k of None \<Rightarrow> JUndefined | Some v \<Rightarrow> v)"

text \<open>
  \<^verbatim>\<open>format\<close> takes the mode's current \<^verbatim>\<open>config\<close> (set by \<^verbatim>\<open>configure\<close>, \<^verbatim>\<open>{}\<close> before).
  It throws before it reaches the engine when the configuration has no
  \<^verbatim>\<open>vetur.format.js\<close> to read from.
\<close>

definition format ::
  "externals \<Rightarrow> ServiceHost \<Rightarrow> jsval \<Rightarrow> TextDocument \<Rightarrow> Range \<Rightarrow> FormattingOptions
     \<Rightarrow> engine_call list \<times> (error + TextEdit list)" where
  "format ext host config doc rng formatParams =
     (let initialIndentLevel = (if truthy (scriptInitialIndent formatParams) then 1 else 0) in
      case config_vetur_format_js config of
        Inl e \<Rightarrow> ([], Inl e)
      | Inr js \<Rightarrow>
          (let formatSettings0 = convertOptions formatParams js initialIndentLevel in
           case get_prop js ''InsertSpaceBeforeFunctionParenthesis'' of
             Inl e \<Rightarrow> ([], Inl e)
           | Inr v \<Rightarrow>
               (let formatSettings =
                      AList.update ''InsertSpaceAfterFunctionKeywordForAnonymousFunctions'' v
                        formatSettings0;
                    (scriptDoc, service) = updateCurrentTextDocument host doc;
                    fileFsPath = getFileFsPath ext (uri doc);
                    start = offsetAt scriptDoc (range_start rng);
                    end' = offsetAt scriptDoc (range_end rng);
                    edits = getFormattingEditsForRange service fileFsPath start end' formatSettings
                in ([GetFormattingEditsForRange fileFsPath start end' formatSettings],
                    Inr (case edits of
                           Some es \<Rightarrow>
                             map (\<lambda>edit.
                                    \<lparr>edit_range = convertRange scriptDoc (change_span edit),
                                     newText = change_newText edit\<rparr>)
                               (filter (\<lambda>edit.
                                    span_start (change_span edit) \<ge> start
                                    \<and> span_start (change_span edit)
                                        + span_length (change_span edit) \<le> end')
                                  es)
                         | None \<Rightarrow> [])))))"

subsection \<open>Component discovery\<close>

definition findComponents ::
  "externals \<Rightarrow> ServiceHost \<Rightarrow> TextDocument \<Rightarrow> engine_call list \<times> ComponentInfo list" where
  "findComponents ext host doc =
     (let (scriptDoc, service) = updateCurrentTextDocument host doc;
          fileFsPath = getFileFsPath ext (uri doc)
      in ([FindComponents fileFsPath], ext_findComponents ext service fileFsPath))"

subsection \<open>Construction of the mode\<close>

text \<open>
  \<^verbatim>\<open>getJavascriptMode\<close> either returns the fallback, the spread of \<^verbatim>\<open>nullMode\<close> with a
  \<^verbatim>\<open>findComponents\<close> of its own, or builds the mode over a fresh document cache and a
  fresh service host, with \<^verbatim>\<open>config = {}\<close>. \<^verbatim>\<open>nullMode\<close>, \<^verbatim>\<open>getLanguageModelCache\<close> and
  \<^verbatim>\<open>getServiceHost\<close> are imported from elsewhere and are parameters; the first component
  of the result lists what was created.
\<close>

datatype creation = CreateLanguageModelCache nat nat | CreateServiceHost string

datatype ('m, 'c) ScriptMode =
    NullScriptMode 'm "TextDocument \<Rightarrow> ComponentInfo list"
  | JavascriptMode 'c ServiceHost jsval

definition getJavascriptMode ::
  "'m \<Rightarrow> (nat \<Rightarrow> nat \<Rightarrow> 'r \<Rightarrow> 'c) \<Rightarrow> (string \<Rightarrow> 'c \<Rightarrow> ServiceHost) \<Rightarrow> 'r \<Rightarrow> string nullable
     \<Rightarrow> creation list \<times> ('m, 'c) ScriptMode" where
  "getJavascriptMode nullMode getLanguageModelCache getServiceHost documentRegions workspacePath =
     (case workspacePath of
        Null \<Rightarrow> ([], NullScriptMode nullMode (\<lambda>_. []))
      | Undefined \<Rightarrow> ([], NullScriptMode nullMode (\<lambda>_. []))
      | Value path \<Rightarrow>
          if path = [] then ([], NullScriptMode nullMode (\<lambda>_. []))
          else
            (let jsDocuments = getLanguageModelCache 10 60 documentRegions;
                 serviceHost = getServiceHost path jsDocuments
             in ([CreateLanguageModelCache 10 60, CreateServiceHost path],
                 JavascriptMode jsDocuments serviceHost (JObj []))))"

text \<open>The mode's \<^verbatim>\<open>findComponents\<close>, by the object it is called on.\<close>

fun mode_findComponents ::
  "externals \<Rightarrow> ('m, 'c) ScriptMode \<Rightarrow> TextDocument \<Rightarrow> engine_call list \<times> ComponentInfo list" where
  "mode_findComponents ext (NullScriptMode nullMode fc) doc = ([], fc doc)"
| "mode_findComponents ext (JavascriptMode jsDocuments serviceHost config) doc =
     findComponents ext serviceHost doc"

section \<open>Sample collaborators and inputs\<close>

text \<open>
  Concrete collaborators on which the theorems below are instantiated: path conversions
  that leave the URI as it is, a service that answers every query with nothing, a script
  document of two lines, and a host that serves one script document and one service.
\<close>

definition sample_ext :: externals where
  "sample_ext =
     \<lparr>getFilePath = (\<lambda>u. u),
      getFileFsPath = (\<lambda>u. u),
      Uri_file = (\<lambda>p. ''file://'' @ p),
      displayPartsToString = concat,
      flattenDiagnosticMessageText =
        (\<lambda>m newLine. case m of MessageString t \<Rightarrow> t | MessageChain ts \<Rightarrow> concat ts),
      ext_findComponents = (\<lambda>service path. [])\<rparr>"

definition sample_service :: "string list \<Rightarrow> LanguageService" where
  "sample_service roots =
     \<lparr>getRootFileNames = roots,
      getSyntacticDiagnostics = (\<lambda>path. []),
      getSemanticDiagnostics = (\<lambda>path. []),
      getCompletionsAtPosition = (\<lambda>path offset. None),
      getCompletionEntryDetails = (\<lambda>path offset name. None),
      getQuickInfoAtPosition = (\<lambda>path offset. None),
      getSignatureHelpItems = (\<lambda>path offset. None),
      getOccurrencesAtPosition = (\<lambda>path offset. None),
      getNavigationBarItems = (\<lambda>path. None),
      getDefinitionAtPosition = (\<lambda>path offset. None),
      getReferencesAtPosition = (\<lambda>path offset. None),
      getFormattingEditsForRange = (\<lambda>path start end' settings. None)\<rparr>"

definition sample_scriptDoc :: TextDocument where
  "sample_scriptDoc =
     \<lparr>uri = ''/a.vue'', languageId = ''javascript'',
      content = ''var x = 1;'' @ [CHR 0x0A] @ ''var y = 2;''\<rparr>"

definition sample_doc :: TextDocument where
  "sample_doc = \<lparr>uri = ''/a.vue'', languageId = ''vue'', content = []\<rparr>"

definition sample_host :: "TextDocument \<Rightarrow> LanguageService \<Rightarrow> ServiceHost" where
  "sample_host scriptDoc service =
     \<lparr>updateCurrentTextDocument = (\<lambda>doc. (scriptDoc, service)),
      getScriptDocByFsPath = (\<lambda>path. if path = uri scriptDoc then Some scriptDoc else None)\<rparr>"


definition sample_config :: "jsval \<Rightarrow> jsval" where
  "sample_config js = JObj [(''vetur'', JObj [(''format'', JObj [(''js'', js)])])]"

definition sample_options :: FormattingOptions where
  "sample_options = \<lparr>tabSize = 2, insertSpaces = True, scriptInitialIndent = JBool False\<rparr>"

definition sample_range :: Range where
  "sample_range = \<lparr>range_start = \<lparr>line = 0, character = 0\<rparr>,
                    range_end = \<lparr>line = 0, character = 10\<rparr>\<rparr>"

definition sample_item :: CompletionItem where
  "sample_item =
     \<lparr>label = ''x'', ci_kind = Some CIK_Variable, sortText = Some ''0'', textEdit = None,
      detail = None, documentation = None,
      data = Some \<lparr>data_languageId = ''vue'', data_uri = ''/a.vue'', data_offset = 4\<rparr>,
      ci_uri = Some ''/a.vue'', ci_position = Some \<lparr>line = 0, character = 4\<rparr>\<rparr>"


text \<open>A formatter that answers with three edits: one spanning exactly the first ten
  characters, one reaching one character further, one inside.\<close>

definition sample_edits :: "TextChange list" where
  "sample_edits =
     [\<lparr>change_span = \<lparr>span_start = 0, span_length = 10\<rparr>, change_newText = ''var x = 1''\<rparr>,
      \<lparr>change_span = \<lparr>span_start = 5, span_length = 6\<rparr>, change_newText = '' ''\<rparr>,
      \<lparr>change_span = \<lparr>span_start = 3, span_length = 2\<rparr>, change_newText = ''x''\<rparr>]"

definition sample_formatter :: LanguageService where
  "sample_formatter =
     (sample_service [])\<lparr>getFormattingEditsForRange :=
        (\<lambda>path start end' settings. Some sample_edits)\<rparr>"

text \<open>The settings objects of the formatter calls in a list of engine calls.\<close>

fun settings_passed :: "engine_call list \<Rightarrow> FormatCodeOptions list" where
  "settings_passed [] = []"
| "settings_passed (GetFormattingEditsForRange path start end' settings # calls) =
     settings # settings_passed calls"
| "settings_passed (call # calls) = settings_passed calls"

text \<open>The settings \<^verbatim>\<open>format\<close> builds from the sample options when the configuration's
  \<^verbatim>\<open>vetur.format.js\<close> sets \<^verbatim>\<open>InsertSpaceBeforeFunctionParenthesis\<close> to \<^verbatim>\<open>false\<close>.\<close>

definition sample_js :: jsval where
  "sample_js = JObj [(''InsertSpaceBeforeFunctionParenthesis'', JBool False)]"

definition sample_settings :: FormatCodeOptions where
  "sample_settings =
     AList.update ''InsertSpaceAfterFunctionKeywordForAnonymousFunctions'' (JBool False)
       (convertOptions sample_options sample_js 0)"

text \<open>A service that knows \<^verbatim>\<open>/a.vue\<close> and offers three completion entries there, the
  bridge symbol among them, with details for the entry \<^verbatim>\<open>x\<close> at offset 4 only.\<close>

definition sample_entries :: "CompletionEntry list" where
  "sample_entries =
     [\<lparr>entry_name = ''x'', entry_kind = ''var'', entry_sortText = ''0'',
       replacementSpan = Some \<lparr>span_start = 4, span_length = 1\<rparr>\<rparr>,
      \<lparr>entry_name = ''__vueEditorBridge'', entry_kind = ''function'', entry_sortText = ''0'',
       replacementSpan = None\<rparr>,
      \<lparr>entry_name = ''parseInt'', entry_kind = ''function'', entry_sortText = ''1'',
       replacementSpan = None\<rparr>]"

definition sample_completer :: LanguageService where
  "sample_completer =
     (sample_service [''/a.vue''])
       \<lparr>getCompletionsAtPosition :=
          (\<lambda>path offset. if path = ''/a.vue'' then Some \<lparr>entries = sample_entries\<rparr> else None),
        getCompletionEntryDetails :=
          (\<lambda>path offset name.
             if path = ''/a.vue'' \<and> offset = 4 \<and> name = ''x''
             then Some \<lparr>details_displayParts = [''var '', ''x'', '': number''],
                        details_documentation = [''the first variable'']\<rparr>
             else None)\<rparr>"

text \<open>A service that knows \<^verbatim>\<open>/a.vue\<close> and finds the definition in another file,
  \<^verbatim>\<open>/b.ts\<close>, at a span beyond the end of the script document, and one reference in each
  of the two files.\<close>

definition sample_navigator :: LanguageService where
  "sample_navigator =
     (sample_service [''/a.vue''])
       \<lparr>getDefinitionAtPosition :=
          (\<lambda>path offset.
             Some [\<lparr>def_fileName = ''/b.ts'',
                    def_textSpan = \<lparr>span_start = 100, span_length = 5\<rparr>\<rparr>]),
        getReferencesAtPosition :=
          (\<lambda>path offset.
             Some [\<lparr>ref_fileName = ''/a.vue'',
                    ref_textSpan = \<lparr>span_start = 4, span_length = 1\<rparr>, isWriteAccess = True\<rparr>,
                   \<lparr>ref_fileName = ''/b.ts'',
                    ref_textSpan = \<lparr>span_start = 12, span_length = 1\<rparr>,
                    isWriteAccess = False\<rparr>])\<rparr>"

text \<open>A navigation tree with two sibling nodes of the same name, kind and first-span
  start, each with one child of its own, and a service that reports it for \<^verbatim>\<open>/a.vue\<close>.\<close>

definition sample_first :: NavigationBarItem where
  "sample_first =
     NavigationBarItem ''f'' ''function'' [\<lparr>span_start = 0, span_length = 10\<rparr>]
       [NavigationBarItem ''x'' ''var'' [\<lparr>span_start = 4, span_length = 1\<rparr>] []]"

definition sample_second :: NavigationBarItem where
  "sample_second =
     NavigationBarItem ''f'' ''function''
       [\<lparr>span_start = 0, span_length = 10\<rparr>, \<lparr>span_start = 11, span_length = 10\<rparr>]
       [NavigationBarItem ''y'' ''var'' [\<lparr>span_start = 15, span_length = 1\<rparr>] []]"

definition sample_outliner :: LanguageService where
  "sample_outliner =
     (sample_service [''/a.vue''])
       \<lparr>getNavigationBarItems := (\<lambda>path. Some [sample_first, sample_second])\<rparr>"

section \<open>The offset lookup is inverse to the position lookup\<close>

lemma lineOffsetsFrom_bounds:
  "sorted (lineOffsetsFrom i b s) \<and> (\<forall>x \<in> set (lineOffsetsFrom i b s). i \<le> x)"
proof (induction i b s rule: lineOffsetsFrom.induct)
  case (1 i isLineStart)
  then show ?case by simp
next
  case (2 i isLineStart ch)
  then show ?case by (auto simp: sorted_append)
next
  case (3 i isLineStart ch ch' rest)
  then show ?case by (force simp: sorted_append)
qed

lemma lineOffsetsFrom_hd:
  "s \<noteq> [] \<Longrightarrow> \<exists>ys. lineOffsetsFrom i True s = i # ys"
  by (cases "(i, True, s)" rule: lineOffsetsFrom.cases) auto


lemma findLine_spec:
  assumes "sorted xs" "low \<le> high" "high \<le> length xs"
    and "\<forall>j<low. xs ! j \<le> off"
    and "\<forall>j. high \<le> j \<and> j < length xs \<longrightarrow> off < xs ! j"
  shows "low \<le> findLine xs off low high \<and> findLine xs off low high \<le> high \<and>
         (\<forall>j < findLine xs off low high. xs ! j \<le> off) \<and>
         (\<forall>j. findLine xs off low high \<le> j \<and> j < length xs \<longrightarrow> off < xs ! j)"
  using assms
proof (induction xs off low high rule: findLine.induct)
  case (1 xs off low high)
  show ?case
  proof (cases "low < high")
    case False
    have "findLine xs off low high = low" using False by (subst findLine.simps) simp
    with 1(3-) False show ?thesis by simp
  next
    case True
    define mid where "mid = (low + high) div 2"
    have mid: "low \<le> mid" "mid < high" using True by (auto simp: mid_def)
    show ?thesis
    proof (cases "off < xs ! mid")
      case gt: True
      have hi: "\<forall>j. mid \<le> j \<and> j < length xs \<longrightarrow> off < xs ! j"
      proof (intro allI impI)
        fix j assume "mid \<le> j \<and> j < length xs"
        then have "xs ! mid \<le> xs ! j" using \<open>sorted xs\<close> by (simp add: sorted_nth_mono)
        with gt show "off < xs ! j" by simp
      qed
      have eq: "findLine xs off low high = findLine xs off low mid"
        using True gt by (subst findLine.simps) (simp add: mid_def Let_def)
      have "low \<le> findLine xs off low mid \<and> findLine xs off low mid \<le> mid \<and>
         (\<forall>j < findLine xs off low mid. xs ! j \<le> off) \<and>
         (\<forall>j. findLine xs off low mid \<le> j \<and> j < length xs \<longrightarrow> off < xs ! j)"
      proof (rule "1.IH"(1)[OF True mid_def gt \<open>sorted xs\<close> _ _ _ hi])
        show "low \<le> mid" by (rule mid)
        show "mid \<le> length xs" using mid 1(5) by linarith
        show "\<forall>j<low. xs ! j \<le> off" by (rule 1(6))
      qed
      then show ?thesis using eq mid by auto
    next
      case le: False
      have lo: "\<forall>j<mid + 1. xs ! j \<le> off"
      proof (intro allI impI)
        fix j assume "j < mid + 1"
        then have "xs ! j \<le> xs ! mid" using \<open>sorted xs\<close> mid 1(5) by (simp add: sorted_nth_mono)
        with le show "xs ! j \<le> off" by simp
      qed
      have eq: "findLine xs off low high = findLine xs off (mid + 1) high"
        using True le by (subst findLine.simps) (simp add: mid_def Let_def)
      have "mid + 1 \<le> findLine xs off (mid + 1) high \<and> findLine xs off (mid + 1) high \<le> high \<and>
         (\<forall>j < findLine xs off (mid + 1) high. xs ! j \<le> off) \<and>
         (\<forall>j. findLine xs off (mid + 1) high \<le> j \<and> j < length xs \<longrightarrow> off < xs ! j)"
      proof (rule "1.IH"(2)[OF True mid_def le \<open>sorted xs\<close> _ _ lo])
        show "mid + 1 \<le> high" using mid by linarith
        show "high \<le> length xs" by (rule 1(5))
        show "\<forall>j. high \<le> j \<and> j < length xs \<longrightarrow> off < xs ! j" by (rule 1(7))
      qed
      then show ?thesis using eq mid by auto
    qed
  qed
qed

lemma offsetAt_positionAt:
  assumes "off \<le> length (content d)"
  shows "offsetAt d (positionAt d off) = off"
proof (cases "getLineOffsets d = []")
  case True
  have "content d = []"
  proof (rule ccontr)
    assume "content d \<noteq> []"
    from lineOffsetsFrom_hd[OF this, of 0] True show False by (simp add: getLineOffsets_def)
  qed
  with True assms show ?thesis by (simp add: offsetAt_def positionAt_def)
next
  case False
  define xs where "xs = getLineOffsets d"
  have srt: "sorted xs" using lineOffsetsFrom_bounds by (simp add: xs_def getLineOffsets_def)
  have ne: "xs \<noteq> []" using False by (simp add: xs_def)
  have "content d \<noteq> []" using False by (auto simp: getLineOffsets_def)
  then have x0: "xs ! 0 = 0" using lineOffsetsFrom_hd[of "content d" 0] by (auto simp: xs_def getLineOffsets_def)
  define r where "r = findLine xs off 0 (length xs)"
  have sp: "r \<le> length xs \<and> (\<forall>j < r. xs ! j \<le> off) \<and> (\<forall>j. r \<le> j \<and> j < length xs \<longrightarrow> off < xs ! j)"
    using findLine_spec[OF srt, of 0 "length xs" off] by (simp add: r_def)
  have rpos: "0 < r"
  proof (rule ccontr)
    assume "\<not> 0 < r"
    then have "off < xs ! 0" using sp ne by simp
    with x0 show False by simp
  qed
  have le: "xs ! (r - 1) \<le> off" using sp rpos by simp
  have nxt: "r < length xs \<Longrightarrow> off < xs ! r" using sp by simp
  have pos: "positionAt d off = \<lparr>line = r - 1, character = off - xs ! (r - 1)\<rparr>"
    using assms ne by (simp add: positionAt_def Let_def xs_def[symmetric] r_def min_def)
  have lt: "r - 1 < length xs" using sp rpos by linarith
  have sum: "xs ! (r - 1) + (off - xs ! (r - 1)) = off" using le by simp
  have r1: "r - 1 + 1 = r" using rpos by simp
  define nx where "nx = (if r < length xs then xs ! r else length (content d))"
  have nx: "off \<le> nx" using nxt assms by (auto simp: nx_def)
  have "offsetAt d (positionAt d off) = max (min off nx) (xs ! (r - 1))"
    unfolding pos offsetAt_def Let_def xs_def[symmetric] nx_def
    using lt sum r1 by simp
  also have "\<dots> = off" using nx le by simp
  finally show ?thesis .
qed


text \<open>
  C8. For every document and every span whose end \<open>start + length\<close> lies within the
  document's content, converting the span to a range with \<^verbatim>\<open>convertRange\<close> and mapping
  the range's start and end positions back with \<^verbatim>\<open>offsetAt\<close> gives back exactly
  \<open>start\<close> and \<open>start + length\<close>.
\<close>

theorem convertRange_roundtrip:
  assumes "span_start span + span_length span \<le> length (content document)"
  shows "offsetAt document (range_start (convertRange document span)) = span_start span
       \<and> offsetAt document (range_end (convertRange document span))
           = span_start span + span_length span"
proof -
  have "span_start span \<le> length (content document)" using assms by simp
  then have "offsetAt document (positionAt document (span_start span)) = span_start span"
    by (rule offsetAt_positionAt)
  moreover have "offsetAt document (positionAt document (span_start span + span_length span))
      = span_start span + span_length span"
    using assms by (rule offsetAt_positionAt)
  ultimately show ?thesis by (simp add: convertRange_def)
qed

theorem convertRange_roundtrip_witness:
  "span_start \<lparr>span_start = 9, span_length = 5\<rparr> + span_length \<lparr>span_start = 9, span_length = 5\<rparr>
     \<le> length (content sample_scriptDoc)
   \<and> convertRange sample_scriptDoc \<lparr>span_start = 9, span_length = 5\<rparr>
       = \<lparr>range_start = \<lparr>line = 0, character = 9\<rparr>, range_end = \<lparr>line = 1, character = 3\<rparr>\<rparr>
   \<and> offsetAt sample_scriptDoc \<lparr>line = 0, character = 9\<rparr> = 9
   \<and> offsetAt sample_scriptDoc \<lparr>line = 1, character = 3\<rparr> = 14"
proof -
  have len: "span_start \<lparr>span_start = 9, span_length = 5\<rparr>
      + span_length \<lparr>span_start = 9, span_length = 5\<rparr> \<le> length (content sample_scriptDoc)"
    by (simp add: sample_scriptDoc_def)
  have lo: "getLineOffsets sample_scriptDoc = [0, 11]"
    by (simp add: getLineOffsets_def sample_scriptDoc_def CR_def LF_def)
  have cr: "convertRange sample_scriptDoc \<lparr>span_start = 9, span_length = 5\<rparr>
       = \<lparr>range_start = \<lparr>line = 0, character = 9\<rparr>, range_end = \<lparr>line = 1, character = 3\<rparr>\<rparr>"
    by (simp add: convertRange_def positionAt_def getLineOffsets_def sample_scriptDoc_def
          CR_def LF_def findLine.simps)
  show ?thesis
    using convertRange_roundtrip [OF len] len cr by simp
qed

section \<open>The classifiers\<close>

text \<open>
  C7. The completion-kind and the symbol-kind classifier are total: each table entry
  maps as listed (\<open>keyword\<close> and \<open>primitive type\<close> to Keyword; \<open>property\<close>, \<open>getter\<close> and
  \<open>setter\<close> to Field for completions and to Property for symbols; \<open>warning\<close> to File),
  and every other string yields Property from the completion classifier and Variable
  from the symbol classifier.
\<close>

theorem classifiers_total:
  "convertKind ''primitive type'' = CIK_Keyword \<and> convertKind ''keyword'' = CIK_Keyword
   \<and> convertKind ''var'' = CIK_Variable \<and> convertKind ''local var'' = CIK_Variable
   \<and> convertKind ''property'' = CIK_Field \<and> convertKind ''getter'' = CIK_Field
   \<and> convertKind ''setter'' = CIK_Field
   \<and> convertKind ''function'' = CIK_Function \<and> convertKind ''method'' = CIK_Function
   \<and> convertKind ''construct'' = CIK_Function \<and> convertKind ''call'' = CIK_Function
   \<and> convertKind ''index'' = CIK_Function
   \<and> convertKind ''enum'' = CIK_Enum \<and> convertKind ''module'' = CIK_Module
   \<and> convertKind ''class'' = CIK_Class \<and> convertKind ''interface'' = CIK_Interface
   \<and> convertKind ''warning'' = CIK_File
   \<and> (k \<notin> set [''primitive type'', ''keyword'', ''var'', ''local var'', ''property'',
                 ''getter'', ''setter'', ''function'', ''method'', ''construct'', ''call'',
                 ''index'', ''enum'', ''module'', ''class'', ''interface'', ''warning'']
        \<longrightarrow> convertKind k = CIK_Property)
   \<and> convertSymbolKind ''var'' = SK_Variable \<and> convertSymbolKind ''local var'' = SK_Variable
   \<and> convertSymbolKind ''const'' = SK_Variable
   \<and> convertSymbolKind ''function'' = SK_Function
   \<and> convertSymbolKind ''local function'' = SK_Function
   \<and> convertSymbolKind ''enum'' = SK_Enum \<and> convertSymbolKind ''module'' = SK_Module
   \<and> convertSymbolKind ''class'' = SK_Class \<and> convertSymbolKind ''interface'' = SK_Interface
   \<and> convertSymbolKind ''method'' = SK_Method
   \<and> convertSymbolKind ''property'' = SK_Property \<and> convertSymbolKind ''getter'' = SK_Property
   \<and> convertSymbolKind ''setter'' = SK_Property
   \<and> (j \<notin> set [''function'', ''local function'', ''enum'', ''module'', ''class'',
                 ''interface'', ''method'', ''property'', ''getter'', ''setter'']
        \<longrightarrow> convertSymbolKind j = SK_Variable)"
proof -
  have table: "convertKind ''primitive type'' = CIK_Keyword \<and> convertKind ''keyword'' = CIK_Keyword
   \<and> convertKind ''var'' = CIK_Variable \<and> convertKind ''local var'' = CIK_Variable
   \<and> convertKind ''property'' = CIK_Field \<and> convertKind ''getter'' = CIK_Field
   \<and> convertKind ''setter'' = CIK_Field
   \<and> convertKind ''function'' = CIK_Function \<and> convertKind ''method'' = CIK_Function
   \<and> convertKind ''construct'' = CIK_Function \<and> convertKind ''call'' = CIK_Function
   \<and> convertKind ''index'' = CIK_Function
   \<and> convertKind ''enum'' = CIK_Enum \<and> convertKind ''module'' = CIK_Module
   \<and> convertKind ''class'' = CIK_Class \<and> convertKind ''interface'' = CIK_Interface
   \<and> convertKind ''warning'' = CIK_File"
    by (simp add: convertKind_def)
  have dflt: "k \<notin> set [''primitive type'', ''keyword'', ''var'', ''local var'', ''property'',
                 ''getter'', ''setter'', ''function'', ''method'', ''construct'', ''call'',
                 ''index'', ''enum'', ''module'', ''class'', ''interface'', ''warning'']
        \<longrightarrow> convertKind k = CIK_Property"
    by (simp add: convertKind_def)
  have stable: "convertSymbolKind ''var'' = SK_Variable \<and> convertSymbolKind ''local var'' = SK_Variable
   \<and> convertSymbolKind ''const'' = SK_Variable
   \<and> convertSymbolKind ''function'' = SK_Function
   \<and> convertSymbolKind ''local function'' = SK_Function
   \<and> convertSymbolKind ''enum'' = SK_Enum \<and> convertSymbolKind ''module'' = SK_Module
   \<and> convertSymbolKind ''class'' = SK_Class \<and> convertSymbolKind ''interface'' = SK_Interface
   \<and> convertSymbolKind ''method'' = SK_Method
   \<and> convertSymbolKind ''property'' = SK_Property \<and> convertSymbolKind ''getter'' = SK_Property
   \<and> convertSymbolKind ''setter'' = SK_Property"
    by (simp add: convertSymbolKind_def)
  have sdflt: "j \<notin> set [''function'', ''local function'', ''enum'', ''module'', ''class'',
                 ''interface'', ''method'', ''property'', ''getter'', ''setter'']
        \<longrightarrow> convertSymbolKind j = SK_Variable"
    by (simp add: convertSymbolKind_def)
  from table dflt stable sdflt show ?thesis by blast
qed

theorem classifiers_total_witness:
  "convertKind ''alias'' = CIK_Property \<and> convertSymbolKind ''keyword'' = SK_Variable"
  using classifiers_total [of "''alias''" "''keyword''"] by simp

section \<open>The program-membership guard\<close>

lemma format_calls:
  "GetRootFileNames \<notin> set (fst (format ext host config doc rng formatParams))"
  by (simp add: format_def Let_def split: sum.splits prod.splits)

lemma format_invokes:
  "snd (format ext host config doc rng formatParams) = Inr edits \<Longrightarrow>
   \<exists>settings. fst (format ext host config doc rng formatParams) =
     [GetFormattingEditsForRange (getFileFsPath ext (uri doc))
        (offsetAt (fst (updateCurrentTextDocument host doc)) (range_start rng))
        (offsetAt (fst (updateCurrentTextDocument host doc)) (range_end rng)) settings]"
  by (auto simp: format_def Let_def split: sum.splits prod.splits)

lemma findComponents_calls:
  "findComponents ext host doc =
     ([FindComponents (getFileFsPath ext (uri doc))],
      ext_findComponents ext (snd (updateCurrentTextDocument host doc))
        (getFileFsPath ext (uri doc)))"
  by (simp add: findComponents_def Let_def split: prod.splits)

text \<open>
  C1. When the requesting document's file path is not among the engine's root files,
  each of the nine read operations returns its empty value (the empty list, the empty
  non-incomplete completion list, the hover without contents, the null signature help,
  the null completion item) and has invoked nothing of the engine but the membership
  check. \<^verbatim>\<open>format\<close> and \<^verbatim>\<open>findComponents\<close> make no membership check: whenever
  \<^verbatim>\<open>format\<close> returns edits it has invoked the formatter, exactly once, and
  \<^verbatim>\<open>findComponents\<close> always hands the service to the component discovery.
\<close>

theorem guard_short_circuit:
  "(getFilePath ext (uri doc)
      \<notin> set (getRootFileNames (snd (updateCurrentTextDocument host doc))) \<longrightarrow>
      doValidation ext host doc = ([GetRootFileNames], [])
    \<and> doComplete ext host doc position
        = ([GetRootFileNames], \<lparr>isIncomplete = False, items = []\<rparr>)
    \<and> doResolve ext host doc item = ([GetRootFileNames], Inr NULL_COMPLETION)
    \<and> doHover ext host doc position = ([GetRootFileNames], \<lparr>hover_range = None, contents = []\<rparr>)
    \<and> doSignatureHelp ext host doc position = ([GetRootFileNames], NULL_SIGNATURE)
    \<and> findDocumentHighlight ext host doc position = ([GetRootFileNames], [])
    \<and> findDocumentSymbols ext host doc = ([GetRootFileNames], Inr [])
    \<and> findDefinition ext host doc position = ([GetRootFileNames], [])
    \<and> findReferences ext host doc position = ([GetRootFileNames], []))
   \<and> GetRootFileNames \<notin> set (fst (format ext host config doc rng formatParams))
   \<and> (\<forall>edits. snd (format ext host config doc rng formatParams) = Inr edits \<longrightarrow>
        (\<exists>settings. fst (format ext host config doc rng formatParams) =
           [GetFormattingEditsForRange (getFileFsPath ext (uri doc))
              (offsetAt (fst (updateCurrentTextDocument host doc)) (range_start rng))
              (offsetAt (fst (updateCurrentTextDocument host doc)) (range_end rng)) settings]))
   \<and> findComponents ext host doc =
       ([FindComponents (getFileFsPath ext (uri doc))],
        ext_findComponents ext (snd (updateCurrentTextDocument host doc))
          (getFileFsPath ext (uri doc)))"
proof -
  have guarded: "getFilePath ext (uri doc)
      \<notin> set (getRootFileNames (snd (updateCurrentTextDocument host doc))) \<longrightarrow>
      doValidation ext host doc = ([GetRootFileNames], [])
    \<and> doComplete ext host doc position
        = ([GetRootFileNames], \<lparr>isIncomplete = False, items = []\<rparr>)
    \<and> doResolve ext host doc item = ([GetRootFileNames], Inr NULL_COMPLETION)
    \<and> doHover ext host doc position = ([GetRootFileNames], \<lparr>hover_range = None, contents = []\<rparr>)
    \<and> doSignatureHelp ext host doc position = ([GetRootFileNames], NULL_SIGNATURE)
    \<and> findDocumentHighlight ext host doc position = ([GetRootFileNames], [])
    \<and> findDocumentSymbols ext host doc = ([GetRootFileNames], Inr [])
    \<and> findDefinition ext host doc position = ([GetRootFileNames], [])
    \<and> findReferences ext host doc position = ([GetRootFileNames], [])"
  proof
    assume out: "getFilePath ext (uri doc)
      \<notin> set (getRootFileNames (snd (updateCurrentTextDocument host doc)))"
    obtain scriptDoc service where upd: "updateCurrentTextDocument host doc = (scriptDoc, service)"
      by (cases "updateCurrentTextDocument host doc")
    have no: "\<not> languageServiceIncludesFile ext service (uri doc)"
      using out upd by (simp add: languageServiceIncludesFile_def)
    have "doValidation ext host doc = ([GetRootFileNames], [])"
      using upd no by (simp add: doValidation_def)
    moreover have "doComplete ext host doc position
        = ([GetRootFileNames], \<lparr>isIncomplete = False, items = []\<rparr>)"
      using upd no by (simp add: doComplete_def)
    moreover have "doResolve ext host doc item = ([GetRootFileNames], Inr NULL_COMPLETION)"
      using upd no by (simp add: doResolve_def)
    moreover have "doHover ext host doc position
        = ([GetRootFileNames], \<lparr>hover_range = None, contents = []\<rparr>)"
      using upd no by (simp add: doHover_def)
    moreover have "doSignatureHelp ext host doc position = ([GetRootFileNames], NULL_SIGNATURE)"
      using upd no by (simp add: doSignatureHelp_def)
    moreover have "findDocumentHighlight ext host doc position = ([GetRootFileNames], [])"
      using upd no by (simp add: findDocumentHighlight_def)
    moreover have "findDocumentSymbols ext host doc = ([GetRootFileNames], Inr [])"
      using upd no by (simp add: findDocumentSymbols_def)
    moreover have "findDefinition ext host doc position = ([GetRootFileNames], [])"
      using upd no by (simp add: findDefinition_def)
    moreover have "findReferences ext host doc position = ([GetRootFileNames], [])"
      using upd no by (simp add: findReferences_def)
    ultimately show "doValidation ext host doc = ([GetRootFileNames], [])
    \<and> doComplete ext host doc position
        = ([GetRootFileNames], \<lparr>isIncomplete = False, items = []\<rparr>)
    \<and> doResolve ext host doc item = ([GetRootFileNames], Inr NULL_COMPLETION)
    \<and> doHover ext host doc position = ([GetRootFileNames], \<lparr>hover_range = None, contents = []\<rparr>)
    \<and> doSignatureHelp ext host doc position = ([GetRootFileNames], NULL_SIGNATURE)
    \<and> findDocumentHighlight ext host doc position = ([GetRootFileNames], [])
    \<and> findDocumentSymbols ext host doc = ([GetRootFileNames], Inr [])
    \<and> findDefinition ext host doc position = ([GetRootFileNames], [])
    \<and> findReferences ext host doc position = ([GetRootFileNames], [])"
      by (intro conjI)
  qed
  have fmt: "\<forall>edits. snd (format ext host config doc rng formatParams) = Inr edits \<longrightarrow>
        (\<exists>settings. fst (format ext host config doc rng formatParams) =
           [GetFormattingEditsForRange (getFileFsPath ext (uri doc))
              (offsetAt (fst (updateCurrentTextDocument host doc)) (range_start rng))
              (offsetAt (fst (updateCurrentTextDocument host doc)) (range_end rng)) settings])"
    using format_invokes by blast
  from guarded format_calls fmt findComponents_calls show ?thesis by (intro conjI)
qed


theorem guard_short_circuit_witness:
  "getFilePath sample_ext (uri sample_doc)
     \<notin> set (getRootFileNames (snd (updateCurrentTextDocument
              (sample_host sample_scriptDoc (sample_service [''/b.ts''])) sample_doc)))
   \<and> doValidation sample_ext (sample_host sample_scriptDoc (sample_service [''/b.ts''])) sample_doc
       = ([GetRootFileNames], [])
   \<and> doComplete sample_ext (sample_host sample_scriptDoc (sample_service [''/b.ts''])) sample_doc
         \<lparr>line = 0, character = 4\<rparr>
       = ([GetRootFileNames], \<lparr>isIncomplete = False, items = []\<rparr>)
   \<and> doResolve sample_ext (sample_host sample_scriptDoc (sample_service [''/b.ts''])) sample_doc
         sample_item
       = ([GetRootFileNames], Inr NULL_COMPLETION)
   \<and> findDefinition sample_ext (sample_host sample_scriptDoc (sample_service [''/b.ts'']))
         sample_doc \<lparr>line = 0, character = 4\<rparr>
       = ([GetRootFileNames], [])
   \<and> snd (format sample_ext (sample_host sample_scriptDoc (sample_service [''/b.ts'']))
             (sample_config (JObj [])) sample_doc sample_range sample_options) = Inr []
   \<and> length (fst (format sample_ext (sample_host sample_scriptDoc (sample_service [''/b.ts'']))
             (sample_config (JObj [])) sample_doc sample_range sample_options)) = 1"
proof -
  have out: "getFilePath sample_ext (uri sample_doc)
     \<notin> set (getRootFileNames (snd (updateCurrentTextDocument
              (sample_host sample_scriptDoc (sample_service [''/b.ts''])) sample_doc)))"
    by (simp add: sample_ext_def sample_doc_def sample_host_def sample_service_def)
  have fmt: "snd (format sample_ext (sample_host sample_scriptDoc (sample_service [''/b.ts'']))
             (sample_config (JObj [])) sample_doc sample_range sample_options) = Inr []"
    by (simp add: format_def config_vetur_format_js_def sample_config_def sample_host_def
          sample_service_def Let_def)
  show ?thesis
    using guard_short_circuit [of sample_ext sample_doc
        "sample_host sample_scriptDoc (sample_service [''/b.ts''])"
        "\<lparr>line = 0, character = 4\<rparr>" sample_item "sample_config (JObj [])" sample_range sample_options]
      out fmt
    by auto
qed

section \<open>Completion and resolve\<close>

lemma doComplete_included:
  assumes upd: "updateCurrentTextDocument host doc = (scriptDoc, service)"
    and inc: "getFilePath ext (uri doc) \<in> set (getRootFileNames service)"
  shows "snd (doComplete ext host doc position) =
     (case getCompletionsAtPosition service (getFileFsPath ext (uri doc))
             (offsetAt scriptDoc position) of
        None \<Rightarrow> \<lparr>isIncomplete = False, items = []\<rparr>
      | Some completions \<Rightarrow>
          \<lparr>isIncomplete = False,
           items =
             map (\<lambda>entry.
                    \<lparr>label = entry_name entry,
                     ci_kind = Some (convertKind (entry_kind entry)),
                     sortText = Some (entry_sortText entry),
                     textEdit = map_option (\<lambda>r. TextEdit_replace r (entry_name entry))
                                  (map_option (convertRange scriptDoc) (replacementSpan entry)),
                     detail = None,
                     documentation = None,
                     data = Some \<lparr>data_languageId = languageId doc, data_uri = uri doc,
                                   data_offset = offsetAt scriptDoc position\<rparr>,
                     ci_uri = Some (uri doc),
                     ci_position = Some position\<rparr>)
               (filter (\<lambda>entry. entry_name entry \<noteq> ''__vueEditorBridge'')
                  (entries completions))\<rparr>)"
  using upd inc
  by (simp add: doComplete_def languageServiceIncludesFile_def Let_def split: option.splits)

text \<open>
  C6. For a document of the engine's program and any position, the list \<^verbatim>\<open>doComplete\<close>
  returns is not incomplete and has no item labelled \<^verbatim>\<open>__vueEditorBridge\<close>; its items
  are, in order, the engine's entries other than the bridge symbol, each with the
  entry's name as label, its sort text, its classified kind, a text edit that replaces
  the entry's replacement span by the entry's name exactly when the engine reports such
  a span, and the correlation payload (languageId, uri, offset of the request).
\<close>

theorem doComplete_items:
  assumes upd: "updateCurrentTextDocument host doc = (scriptDoc, service)"
    and inc: "getFilePath ext (uri doc) \<in> set (getRootFileNames service)"
  shows "isIncomplete (snd (doComplete ext host doc position)) = False
       \<and> (\<forall>item \<in> set (items (snd (doComplete ext host doc position))).
             label item \<noteq> ''__vueEditorBridge'')
       \<and> (getCompletionsAtPosition service (getFileFsPath ext (uri doc))
               (offsetAt scriptDoc position) = None
            \<longrightarrow> items (snd (doComplete ext host doc position)) = [])
       \<and> (\<forall>completions.
             getCompletionsAtPosition service (getFileFsPath ext (uri doc))
               (offsetAt scriptDoc position) = Some completions \<longrightarrow>
             list_all2
               (\<lambda>item entry.
                  label item = entry_name entry
                \<and> sortText item = Some (entry_sortText entry)
                \<and> ci_kind item = Some (convertKind (entry_kind entry))
                \<and> textEdit item =
                    (case replacementSpan entry of
                       None \<Rightarrow> None
                     | Some span \<Rightarrow>
                         Some \<lparr>edit_range = convertRange scriptDoc span,
                               newText = entry_name entry\<rparr>)
                \<and> (textEdit item \<noteq> None) = (replacementSpan entry \<noteq> None)
                \<and> data item = Some \<lparr>data_languageId = languageId doc, data_uri = uri doc,
                                      data_offset = offsetAt scriptDoc position\<rparr>)
               (items (snd (doComplete ext host doc position)))
               (filter (\<lambda>entry. entry_name entry \<noteq> ''__vueEditorBridge'')
                  (entries completions)))"
proof -
  note r = doComplete_included [OF upd inc, of position]
  have a: "isIncomplete (snd (doComplete ext host doc position)) = False"
    by (simp add: r split: option.splits)
  have b: "\<forall>item \<in> set (items (snd (doComplete ext host doc position))).
             label item \<noteq> ''__vueEditorBridge''"
    by (auto simp: r split: option.splits)
  have c: "getCompletionsAtPosition service (getFileFsPath ext (uri doc))
               (offsetAt scriptDoc position) = None
            \<longrightarrow> items (snd (doComplete ext host doc position)) = []"
    by (simp add: r)
  have d: "\<forall>completions.
             getCompletionsAtPosition service (getFileFsPath ext (uri doc))
               (offsetAt scriptDoc position) = Some completions \<longrightarrow>
             list_all2
               (\<lambda>item entry.
                  label item = entry_name entry
                \<and> sortText item = Some (entry_sortText entry)
                \<and> ci_kind item = Some (convertKind (entry_kind entry))
                \<and> textEdit item =
                    (case replacementSpan entry of
                       None \<Rightarrow> None
                     | Some span \<Rightarrow>
                         Some \<lparr>edit_range = convertRange scriptDoc span,
                               newText = entry_name entry\<rparr>)
                \<and> (textEdit item \<noteq> None) = (replacementSpan entry \<noteq> None)
                \<and> data item = Some \<lparr>data_languageId = languageId doc, data_uri = uri doc,
                                      data_offset = offsetAt scriptDoc position\<rparr>)
               (items (snd (doComplete ext host doc position)))
               (filter (\<lambda>entry. entry_name entry \<noteq> ''__vueEditorBridge'')
                  (entries completions))"
    by (auto simp: r list_all2_map1 list_all2_same TextEdit_replace_def split: option.splits)
  from a b c d show ?thesis by (intro conjI)
qed


theorem doComplete_items_witness:
  "updateCurrentTextDocument (sample_host sample_scriptDoc sample_completer) sample_doc
     = (sample_scriptDoc, sample_completer)
   \<and> getFilePath sample_ext (uri sample_doc) \<in> set (getRootFileNames sample_completer)
   \<and> isIncomplete (snd (doComplete sample_ext (sample_host sample_scriptDoc sample_completer)
         sample_doc \<lparr>line = 0, character = 4\<rparr>)) = False
   \<and> map label (items (snd (doComplete sample_ext (sample_host sample_scriptDoc sample_completer)
         sample_doc \<lparr>line = 0, character = 4\<rparr>))) = [''x'', ''parseInt'']
   \<and> map textEdit (items (snd (doComplete sample_ext
         (sample_host sample_scriptDoc sample_completer) sample_doc \<lparr>line = 0, character = 4\<rparr>)))
       = [Some \<lparr>edit_range = \<lparr>range_start = \<lparr>line = 0, character = 4\<rparr>,
                                range_end = \<lparr>line = 0, character = 5\<rparr>\<rparr>,
                 newText = ''x''\<rparr>, None]"
proof -
  have upd: "updateCurrentTextDocument (sample_host sample_scriptDoc sample_completer) sample_doc
     = (sample_scriptDoc, sample_completer)"
    by (simp add: sample_host_def)
  have inc: "getFilePath sample_ext (uri sample_doc) \<in> set (getRootFileNames sample_completer)"
    by (simp add: sample_ext_def sample_doc_def sample_completer_def sample_service_def)
  have lo: "getLineOffsets sample_scriptDoc = [0, 11]"
    by (simp add: getLineOffsets_def sample_scriptDoc_def CR_def LF_def)
  have off: "offsetAt sample_scriptDoc \<lparr>line = 0, character = 4\<rparr> = 4"
    by (simp add: offsetAt_def lo)
  have pos: "positionAt sample_scriptDoc 4 = \<lparr>line = 0, character = 4\<rparr>"
    "positionAt sample_scriptDoc 5 = \<lparr>line = 0, character = 5\<rparr>"
    by (simp_all add: positionAt_def getLineOffsets_def sample_scriptDoc_def CR_def LF_def
          findLine.simps)
  have fp: "getFileFsPath sample_ext (uri sample_doc) = ''/a.vue''"
    by (simp add: sample_ext_def sample_doc_def)
  have en: "getCompletionsAtPosition sample_completer ''/a.vue'' 4 = Some \<lparr>entries = sample_entries\<rparr>"
    by (simp add: sample_completer_def)
  have its: "items (snd (doComplete sample_ext (sample_host sample_scriptDoc sample_completer)
         sample_doc \<lparr>line = 0, character = 4\<rparr>)) =
      [\<lparr>label = ''x'', ci_kind = Some CIK_Variable, sortText = Some ''0'',
        textEdit = Some \<lparr>edit_range = \<lparr>range_start = \<lparr>line = 0, character = 4\<rparr>,
                                        range_end = \<lparr>line = 0, character = 5\<rparr>\<rparr>,
                         newText = ''x''\<rparr>,
        detail = None, documentation = None,
        data = Some \<lparr>data_languageId = ''vue'', data_uri = ''/a.vue'', data_offset = 4\<rparr>,
        ci_uri = Some ''/a.vue'', ci_position = Some \<lparr>line = 0, character = 4\<rparr>\<rparr>,
       \<lparr>label = ''parseInt'', ci_kind = Some CIK_Function, sortText = Some ''1'',
        textEdit = None, detail = None, documentation = None,
        data = Some \<lparr>data_languageId = ''vue'', data_uri = ''/a.vue'', data_offset = 4\<rparr>,
        ci_uri = Some ''/a.vue'', ci_position = Some \<lparr>line = 0, character = 4\<rparr>\<rparr>]"
    unfolding doComplete_included [OF upd inc] off fp en
    by (simp add: off sample_entries_def convertRange_def pos TextEdit_replace_def
          convertKind_def sample_doc_def)
  from doComplete_items [OF upd inc, of "\<lparr>line = 0, character = 4\<rparr>"]
  have "isIncomplete (snd (doComplete sample_ext (sample_host sample_scriptDoc sample_completer)
         sample_doc \<lparr>line = 0, character = 4\<rparr>)) = False"
    by blast
  with upd inc its show ?thesis by simp
qed

text \<open>
  C5. For a document of the engine's program and an item that carries its correlation
  payload, \<^verbatim>\<open>doResolve\<close> asks the engine for the entry's details at the payload's offset
  under the item's label. With details it returns the item with \<^verbatim>\<open>detail\<close> set to the
  rendered signature, \<^verbatim>\<open>documentation\<close> set to the rendered doc comment and the payload
  removed; without details it returns the item as it was, payload included.
\<close>

theorem doResolve_details:
  assumes upd: "updateCurrentTextDocument host doc = (scriptDoc, service)"
    and inc: "getFilePath ext (uri doc) \<in> set (getRootFileNames service)"
    and payload: "data item = Some d"
  shows "fst (doResolve ext host doc item) =
           [GetRootFileNames,
            GetCompletionEntryDetails (getFileFsPath ext (uri doc)) (data_offset d) (label item)]
       \<and> (\<forall>details.
             getCompletionEntryDetails service (getFileFsPath ext (uri doc)) (data_offset d)
               (label item) = Some details \<longrightarrow>
             snd (doResolve ext host doc item) =
               Inr (Resolved
                 (item\<lparr>detail := Some (displayPartsToString ext (details_displayParts details)),
                       documentation :=
                         Some (displayPartsToString ext (details_documentation details)),
                       data := None\<rparr>)))
       \<and> (getCompletionEntryDetails service (getFileFsPath ext (uri doc)) (data_offset d)
             (label item) = None \<longrightarrow>
           snd (doResolve ext host doc item) = Inr (Resolved item)
           \<and> (\<forall>item'. snd (doResolve ext host doc item) = Inr (Resolved item')
                 \<longrightarrow> data item' = Some d))"
  using upd inc payload
  by (auto simp: doResolve_def languageServiceIncludesFile_def Let_def split: option.splits)

theorem doResolve_details_witness:
  "updateCurrentTextDocument (sample_host sample_scriptDoc sample_completer) sample_doc
     = (sample_scriptDoc, sample_completer)
   \<and> getFilePath sample_ext (uri sample_doc) \<in> set (getRootFileNames sample_completer)
   \<and> data sample_item
       = Some \<lparr>data_languageId = ''vue'', data_uri = ''/a.vue'', data_offset = 4\<rparr>
   \<and> doResolve sample_ext (sample_host sample_scriptDoc sample_completer) sample_doc sample_item
       = ([GetRootFileNames, GetCompletionEntryDetails ''/a.vue'' 4 ''x''],
          Inr (Resolved (sample_item\<lparr>detail := Some ''var x: number'',
                                      documentation := Some ''the first variable'',
                                      data := None\<rparr>)))
   \<and> doResolve sample_ext (sample_host sample_scriptDoc sample_completer) sample_doc
         (sample_item\<lparr>label := ''y''\<rparr>)
       = ([GetRootFileNames, GetCompletionEntryDetails ''/a.vue'' 4 ''y''],
          Inr (Resolved (sample_item\<lparr>label := ''y''\<rparr>)))"
proof -
  have upd: "updateCurrentTextDocument (sample_host sample_scriptDoc sample_completer) sample_doc
     = (sample_scriptDoc, sample_completer)"
    by (simp add: sample_host_def)
  have inc: "getFilePath sample_ext (uri sample_doc) \<in> set (getRootFileNames sample_completer)"
    by (simp add: sample_ext_def sample_doc_def sample_completer_def sample_service_def)
  have pl: "data sample_item
       = Some \<lparr>data_languageId = ''vue'', data_uri = ''/a.vue'', data_offset = 4\<rparr>"
    by (simp add: sample_item_def)
  have pl': "data (sample_item\<lparr>label := ''y''\<rparr>)
       = Some \<lparr>data_languageId = ''vue'', data_uri = ''/a.vue'', data_offset = 4\<rparr>"
    by (simp add: sample_item_def)
  have fp: "getFileFsPath sample_ext (uri sample_doc) = ''/a.vue''"
    by (simp add: sample_ext_def sample_doc_def)
  have lx: "label sample_item = ''x''" by (simp add: sample_item_def)
  have dx: "getCompletionEntryDetails sample_completer ''/a.vue'' 4 ''x''
      = Some \<lparr>details_displayParts = [''var '', ''x'', '': number''],
               details_documentation = [''the first variable'']\<rparr>"
    by (simp add: sample_completer_def)
  have dy: "getCompletionEntryDetails sample_completer ''/a.vue'' 4 ''y'' = None"
    by (simp add: sample_completer_def)
  have dp: "displayPartsToString sample_ext [''var '', ''x'', '': number''] = ''var x: number''"
    "displayPartsToString sample_ext [''the first variable''] = ''the first variable''"
    by (simp_all add: sample_ext_def)
  from doResolve_details [OF upd inc pl] fp lx dx dp
  have x: "doResolve sample_ext (sample_host sample_scriptDoc sample_completer) sample_doc
          sample_item
       = ([GetRootFileNames, GetCompletionEntryDetails ''/a.vue'' 4 ''x''],
          Inr (Resolved (sample_item\<lparr>detail := Some ''var x: number'',
                                      documentation := Some ''the first variable'',
                                      data := None\<rparr>)))"
    by (simp add: prod_eq_iff)
  from doResolve_details [OF upd inc pl'] fp dy
  have y: "doResolve sample_ext (sample_host sample_scriptDoc sample_completer) sample_doc
         (sample_item\<lparr>label := ''y''\<rparr>)
       = ([GetRootFileNames, GetCompletionEntryDetails ''/a.vue'' 4 ''y''],
          Inr (Resolved (sample_item\<lparr>label := ''y''\<rparr>)))"
    by (simp add: prod_eq_iff)
  from upd inc pl x y show ?thesis by simp
qed

section \<open>The outline\<close>

text \<open>One node with a first span, as an equation in its two branches.\<close>

lemma collectSymbols_node:
  "collectSymbols u d (NavigationBarItem name kind (span0 # spans1) children) cl (result, existing) =
     (if kind \<noteq> ''script'' \<and> name @ kind @ string_of_nat (span_start span0) \<notin> existing
      then collectChildren u d children (Some name)
             (result @ [\<lparr>sym_name = name, sym_kind = convertSymbolKind kind,
                         location = \<lparr>loc_uri = u, loc_range = convertRange d span0\<rparr>,
                         containerName = cl\<rparr>],
              insert (name @ kind @ string_of_nat (span_start span0)) existing)
      else collectChildren u d children cl (result, existing))"
  by (simp add: Let_def)

text \<open>A signature once marked stays marked.\<close>

lemma existing_grows:
  "collectSymbols u d item cl st = Inr st' \<Longrightarrow> snd st \<subseteq> snd st'"
  "collectChildren u d children cl st = Inr st' \<Longrightarrow> snd st \<subseteq> snd st'"
proof (induction u d item cl st and u d children cl st arbitrary: st' and st'
    rule: collectSymbols_collectChildren.induct)
  case (1 doc_uri scriptDoc name kind sps children containerLabel result existing)
  show ?case
  proof (cases sps)
    case Nil
    with "1.prems" show ?thesis by simp
  next
    case (Cons span0 spans1)
    define sig where "sig = name @ kind @ string_of_nat (span_start span0)"
    define symbol where "symbol = \<lparr>sym_name = name, sym_kind = convertSymbolKind kind,
         location = \<lparr>loc_uri = doc_uri, loc_range = convertRange scriptDoc span0\<rparr>,
         containerName = containerLabel\<rparr>"
    have eq: "collectSymbols doc_uri scriptDoc (NavigationBarItem name kind sps children)
                containerLabel (result, existing) =
          (if kind \<noteq> ''script'' \<and> sig \<notin> existing
           then collectChildren doc_uri scriptDoc children (Some name)
                  (result @ [symbol], insert sig existing)
           else collectChildren doc_uri scriptDoc children containerLabel (result, existing))"
      unfolding Cons sig_def symbol_def by (rule collectSymbols_node)
    show ?thesis
    proof (cases "kind \<noteq> ''script'' \<and> sig \<notin> existing")
      case True
      have run: "collectChildren doc_uri scriptDoc children (Some name)
                   (result @ [symbol], insert sig existing) = Inr st'"
        using "1.prems" True unfolding eq by simp
      have "snd (result @ [symbol], insert sig existing) \<subseteq> snd st'"
        by (rule "1.IH"(1) [OF Cons sig_def True symbol_def run])
      then show ?thesis by auto
    next
      case False
      have run: "collectChildren doc_uri scriptDoc children containerLabel (result, existing)
                   = Inr st'"
        using "1.prems" False unfolding eq by simp
      show ?thesis
        by (rule "1.IH"(2) [OF Cons sig_def False run])
    qed
  qed
next
  case (2 doc_uri scriptDoc containerLabel st)
  then show ?case by simp
next
  case (3 doc_uri scriptDoc child rest containerLabel st)
  show ?case
  proof (cases "collectSymbols doc_uri scriptDoc child containerLabel st")
    case (Inl e)
    with "3.prems" show ?thesis by simp
  next
    case (Inr st1)
    have a: "snd st \<subseteq> snd st1" by (rule "3.IH"(1) [OF Inr])
    have run: "collectChildren doc_uri scriptDoc rest containerLabel st1 = Inr st'"
      using "3.prems" Inr by simp
    have b: "snd st1 \<subseteq> snd st'" by (rule "3.IH"(2) [OF Inr run])
    from a b show ?thesis by (rule subset_trans)
  qed
qed


text \<open>
  C2, as the source has it. Of two sibling nodes with the same name, kind and first-span
  start (the kind not \<open>script\<close>, the signature not marked before), the first emits one
  symbol, with the label the siblings were visited under as its container, and the second
  emits none. The children of both are visited: those of the first under the first's name,
  those of the second under the label the siblings themselves were visited under.
\<close>

theorem duplicate_sibling_outline:
  assumes same: "item_text b = item_text a" "item_kind b = item_kind a"
    and sa: "spans a = sa # sas"
    and sb: "spans b = sb # sbs"
    and start: "span_start sb = span_start sa"
    and kind: "item_kind a \<noteq> ''script''"
    and fresh: "item_text a @ item_kind a @ string_of_nat (span_start sa) \<notin> existing"
  shows "collectChildren u d (a # b # rest) cl (result, existing) =
     (case collectChildren u d (childItems a) (Some (item_text a))
             (result @ [\<lparr>sym_name = item_text a, sym_kind = convertSymbolKind (item_kind a),
                         location = \<lparr>loc_uri = u, loc_range = convertRange d sa\<rparr>,
                         containerName = cl\<rparr>],
              insert (item_text a @ item_kind a @ string_of_nat (span_start sa)) existing) of
        Inl e \<Rightarrow> Inl e
      | Inr st1 \<Rightarrow>
          (case collectChildren u d (childItems b) cl st1 of
             Inl e \<Rightarrow> Inl e
           | Inr st2 \<Rightarrow> collectChildren u d rest cl st2))"
proof -
  define sig where "sig = item_text a @ item_kind a @ string_of_nat (span_start sa)"
  define symbol where "symbol = \<lparr>sym_name = item_text a, sym_kind = convertSymbolKind (item_kind a),
                         location = \<lparr>loc_uri = u, loc_range = convertRange d sa\<rparr>,
                         containerName = cl\<rparr>"
  have a: "a = NavigationBarItem (item_text a) (item_kind a) (sa # sas) (childItems a)"
    using sa by (cases a) simp
  have b: "b = NavigationBarItem (item_text a) (item_kind a) (sb # sbs) (childItems b)"
    using sb same by (cases b) simp
  have first: "collectSymbols u d a cl (result, existing) =
      collectChildren u d (childItems a) (Some (item_text a))
        (result @ [symbol], insert sig existing)"
    by (subst a, subst collectSymbols_node) (use kind fresh in \<open>simp add: sig_def symbol_def\<close>)
  have second: "collectSymbols u d b cl st1 = collectChildren u d (childItems b) cl st1"
    if run: "collectChildren u d (childItems a) (Some (item_text a))
               (result @ [symbol], insert sig existing) = Inr st1" for st1
  proof -
    obtain result1 existing1 where st1: "st1 = (result1, existing1)" by (cases st1)
    have "snd (result @ [symbol], insert sig existing) \<subseteq> snd st1"
      using run by (rule existing_grows(2))
    then have seen: "item_text a @ item_kind a @ string_of_nat (span_start sb) \<in> existing1"
      using st1 start by (auto simp: sig_def)
    show ?thesis
      unfolding st1 by (subst b, subst collectSymbols_node) (use seen in simp)
  qed
  show ?thesis
  proof (cases "collectChildren u d (childItems a) (Some (item_text a))
                  (result @ [symbol], insert sig existing)")
    case (Inl e)
    then show ?thesis
      using first by (simp add: sig_def symbol_def)
  next
    case (Inr st1)
    from second [OF Inr] Inr first show ?thesis
      by (simp add: sig_def symbol_def)
  qed
qed

theorem duplicate_sibling_outline_witness:
  "item_text sample_second = item_text sample_first
   \<and> item_kind sample_second = item_kind sample_first
   \<and> spans sample_first = [\<lparr>span_start = 0, span_length = 10\<rparr>]
   \<and> spans sample_second
       = [\<lparr>span_start = 0, span_length = 10\<rparr>, \<lparr>span_start = 11, span_length = 10\<rparr>]
   \<and> item_kind sample_first \<noteq> ''script''
   \<and> item_text sample_first @ item_kind sample_first @ string_of_nat 0 \<notin> {}
   \<and> collectChildren ''/a.vue'' sample_scriptDoc [sample_first, sample_second] None ([], {})
       = Inr ([\<lparr>sym_name = ''f'', sym_kind = SK_Function,
                 location = \<lparr>loc_uri = ''/a.vue'',
                              loc_range = \<lparr>range_start = \<lparr>line = 0, character = 0\<rparr>,
                                           range_end = \<lparr>line = 0, character = 10\<rparr>\<rparr>\<rparr>,
                 containerName = None\<rparr>,
                \<lparr>sym_name = ''x'', sym_kind = SK_Variable,
                 location = \<lparr>loc_uri = ''/a.vue'',
                              loc_range = \<lparr>range_start = \<lparr>line = 0, character = 4\<rparr>,
                                           range_end = \<lparr>line = 0, character = 5\<rparr>\<rparr>\<rparr>,
                 containerName = Some ''f''\<rparr>,
                \<lparr>sym_name = ''y'', sym_kind = SK_Variable,
                 location = \<lparr>loc_uri = ''/a.vue'',
                              loc_range = \<lparr>range_start = \<lparr>line = 1, character = 4\<rparr>,
                                           range_end = \<lparr>line = 1, character = 5\<rparr>\<rparr>\<rparr>,
                 containerName = None\<rparr>],
               {''ffunction0'', ''xvar4'', ''yvar15''})"
proof -
  have h1: "item_text sample_second = item_text sample_first"
    and h2: "item_kind sample_second = item_kind sample_first"
    and h3: "spans sample_first = [\<lparr>span_start = 0, span_length = 10\<rparr>]"
    and h4: "spans sample_second
       = [\<lparr>span_start = 0, span_length = 10\<rparr>, \<lparr>span_start = 11, span_length = 10\<rparr>]"
    and h6: "item_kind sample_first \<noteq> ''script''"
    by (simp_all add: sample_first_def sample_second_def)
  have h5: "span_start \<lparr>span_start = 0, span_length = 10\<rparr>
      = span_start \<lparr>span_start = 0, span_length = 10\<rparr>"
    by simp
  have h7: "item_text sample_first @ item_kind sample_first
      @ string_of_nat (span_start \<lparr>span_start = 0, span_length = 10\<rparr>) \<notin> {}"
    by simp
  have pos: "positionAt sample_scriptDoc 0 = \<lparr>line = 0, character = 0\<rparr>"
    "positionAt sample_scriptDoc 10 = \<lparr>line = 0, character = 10\<rparr>"
    "positionAt sample_scriptDoc 4 = \<lparr>line = 0, character = 4\<rparr>"
    "positionAt sample_scriptDoc 5 = \<lparr>line = 0, character = 5\<rparr>"
    "positionAt sample_scriptDoc 15 = \<lparr>line = 1, character = 4\<rparr>"
    "positionAt sample_scriptDoc 16 = \<lparr>line = 1, character = 5\<rparr>"
    by (simp_all add: positionAt_def getLineOffsets_def sample_scriptDoc_def CR_def LF_def
          findLine.simps)
  have nums: "string_of_nat 0 = ''0''" "string_of_nat 4 = ''4''" "string_of_nat 15 = ''15''"
    by (simp_all add: string_of_nat.simps)
  have sel: "item_text sample_first = ''f''" "item_kind sample_first = ''function''"
    "childItems sample_first
       = [NavigationBarItem ''x'' ''var'' [\<lparr>span_start = 4, span_length = 1\<rparr>] []]"
    "childItems sample_second
       = [NavigationBarItem ''y'' ''var'' [\<lparr>span_start = 15, span_length = 1\<rparr>] []]"
    by (simp_all add: sample_first_def sample_second_def)
  have run: "collectChildren ''/a.vue'' sample_scriptDoc [sample_first, sample_second] None ([], {})
       = Inr ([\<lparr>sym_name = ''f'', sym_kind = SK_Function,
                 location = \<lparr>loc_uri = ''/a.vue'',
                              loc_range = \<lparr>range_start = \<lparr>line = 0, character = 0\<rparr>,
                                           range_end = \<lparr>line = 0, character = 10\<rparr>\<rparr>\<rparr>,
                 containerName = None\<rparr>,
                \<lparr>sym_name = ''x'', sym_kind = SK_Variable,
                 location = \<lparr>loc_uri = ''/a.vue'',
                              loc_range = \<lparr>range_start = \<lparr>line = 0, character = 4\<rparr>,
                                           range_end = \<lparr>line = 0, character = 5\<rparr>\<rparr>\<rparr>,
                 containerName = Some ''f''\<rparr>,
                \<lparr>sym_name = ''y'', sym_kind = SK_Variable,
                 location = \<lparr>loc_uri = ''/a.vue'',
                              loc_range = \<lparr>range_start = \<lparr>line = 1, character = 4\<rparr>,
                                           range_end = \<lparr>line = 1, character = 5\<rparr>\<rparr>\<rparr>,
                 containerName = None\<rparr>],
               {''ffunction0'', ''xvar4'', ''yvar15''})"
    unfolding duplicate_sibling_outline [OF h1 h2 h3 h4 h5 h6 h7] sel
    by (simp add: nums convertRange_def pos convertSymbolKind_def insert_commute)
  from h1 h2 h3 h4 h6 run show ?thesis by simp
qed

text \<open>
  C2, as the spec has it, fails: the children of the two siblings do not receive the same
  container name. In the sample tree the child \<open>x\<close> of the first \<open>f\<close> has the container
  \<open>f\<close>, the child \<open>y\<close> of the second \<open>f\<close> has none.
\<close>

theorem duplicate_sibling_children_differ:
  "findDocumentSymbols sample_ext (sample_host sample_scriptDoc sample_outliner) sample_doc
     = ([GetRootFileNames, GetNavigationBarItems ''/a.vue''],
        Inr [\<lparr>sym_name = ''f'', sym_kind = SK_Function,
               location = \<lparr>loc_uri = ''/a.vue'',
                            loc_range = \<lparr>range_start = \<lparr>line = 0, character = 0\<rparr>,
                                         range_end = \<lparr>line = 0, character = 10\<rparr>\<rparr>\<rparr>,
               containerName = None\<rparr>,
              \<lparr>sym_name = ''x'', sym_kind = SK_Variable,
               location = \<lparr>loc_uri = ''/a.vue'',
                            loc_range = \<lparr>range_start = \<lparr>line = 0, character = 4\<rparr>,
                                         range_end = \<lparr>line = 0, character = 5\<rparr>\<rparr>\<rparr>,
               containerName = Some ''f''\<rparr>,
              \<lparr>sym_name = ''y'', sym_kind = SK_Variable,
               location = \<lparr>loc_uri = ''/a.vue'',
                            loc_range = \<lparr>range_start = \<lparr>line = 1, character = 4\<rparr>,
                                         range_end = \<lparr>line = 1, character = 5\<rparr>\<rparr>\<rparr>,
               containerName = None\<rparr>])"
proof -
  have upd: "updateCurrentTextDocument (sample_host sample_scriptDoc sample_outliner) sample_doc
     = (sample_scriptDoc, sample_outliner)"
    by (simp add: sample_host_def)
  have inc: "languageServiceIncludesFile sample_ext sample_outliner ''/a.vue''"
    by (simp add: languageServiceIncludesFile_def sample_ext_def sample_outliner_def
          sample_service_def)
  have fp: "getFileFsPath sample_ext ''/a.vue'' = ''/a.vue''" "uri sample_doc = ''/a.vue''"
    by (simp_all add: sample_ext_def sample_doc_def)
  have nav: "getNavigationBarItems sample_outliner ''/a.vue'' = Some [sample_first, sample_second]"
    by (simp add: sample_outliner_def)
  have pos: "positionAt sample_scriptDoc 0 = \<lparr>line = 0, character = 0\<rparr>"
    "positionAt sample_scriptDoc 10 = \<lparr>line = 0, character = 10\<rparr>"
    "positionAt sample_scriptDoc 4 = \<lparr>line = 0, character = 4\<rparr>"
    "positionAt sample_scriptDoc 5 = \<lparr>line = 0, character = 5\<rparr>"
    "positionAt sample_scriptDoc 15 = \<lparr>line = 1, character = 4\<rparr>"
    "positionAt sample_scriptDoc 16 = \<lparr>line = 1, character = 5\<rparr>"
    by (simp_all add: positionAt_def getLineOffsets_def sample_scriptDoc_def CR_def LF_def
          findLine.simps)
  have nums: "string_of_nat 0 = ''0''" "string_of_nat 4 = ''4''" "string_of_nat 15 = ''15''"
    by (simp_all add: string_of_nat.simps)
  have run: "collectChildren ''/a.vue'' sample_scriptDoc [sample_first, sample_second] None ([], {})
       = Inr ([\<lparr>sym_name = ''f'', sym_kind = SK_Function,
                 location = \<lparr>loc_uri = ''/a.vue'',
                              loc_range = \<lparr>range_start = \<lparr>line = 0, character = 0\<rparr>,
                                           range_end = \<lparr>line = 0, character = 10\<rparr>\<rparr>\<rparr>,
                 containerName = None\<rparr>,
                \<lparr>sym_name = ''x'', sym_kind = SK_Variable,
                 location = \<lparr>loc_uri = ''/a.vue'',
                              loc_range = \<lparr>range_start = \<lparr>line = 0, character = 4\<rparr>,
                                           range_end = \<lparr>line = 0, character = 5\<rparr>\<rparr>\<rparr>,
                 containerName = Some ''f''\<rparr>,
                \<lparr>sym_name = ''y'', sym_kind = SK_Variable,
                 location = \<lparr>loc_uri = ''/a.vue'',
                              loc_range = \<lparr>range_start = \<lparr>line = 1, character = 4\<rparr>,
                                           range_end = \<lparr>line = 1, character = 5\<rparr>\<rparr>\<rparr>,
                 containerName = None\<rparr>],
               {''ffunction0'', ''xvar4'', ''yvar15''})"
    by (simp add: sample_first_def sample_second_def nums convertRange_def pos
          convertSymbolKind_def insert_commute)
  show ?thesis
    by (simp add: findDocumentSymbols_def upd inc fp nav run Let_def
          del: collectChildren.simps collectSymbols.simps)
qed

section \<open>Definition and references\<close>

lemma concat_map_option_case:
  "concat (map (\<lambda>x. case t of Some y \<Rightarrow> [f y x] | None \<Rightarrow> []) xs) =
     (case t of Some y \<Rightarrow> map (f y) xs | None \<Rightarrow> [])"
  by (induction xs) (auto split: option.splits)

text \<open>
  C9. For a document of the engine's program, every location \<^verbatim>\<open>findDefinition\<close> and
  \<^verbatim>\<open>findReferences\<close> return has the URI of the target's own file name and a range that
  resolves the target's span against the script document looked up under the requesting
  file's path, whatever file the target is in; the targets keep the engine's order. When
  no script document is found under the requesting file's path, both return the empty
  list, whatever targets the engine returned.
\<close>

theorem locations_resolved_against_requesting_document:
  assumes upd: "updateCurrentTextDocument host doc = (scriptDoc, service)"
    and inc: "getFilePath ext (uri doc) \<in> set (getRootFileNames service)"
  shows "(getScriptDocByFsPath host (getFileFsPath ext (uri doc)) = None \<longrightarrow>
            snd (findDefinition ext host doc position) = []
          \<and> snd (findReferences ext host doc position) = [])
       \<and> (\<forall>requesting.
             getScriptDocByFsPath host (getFileFsPath ext (uri doc)) = Some requesting \<longrightarrow>
             (\<forall>definitions.
                getDefinitionAtPosition service (getFileFsPath ext (uri doc))
                  (offsetAt scriptDoc position) = Some definitions \<longrightarrow>
                snd (findDefinition ext host doc position) =
                  map (\<lambda>d. \<lparr>loc_uri = Uri_file ext (def_fileName d),
                             loc_range = convertRange requesting (def_textSpan d)\<rparr>)
                    definitions)
           \<and> (\<forall>references.
                getReferencesAtPosition service (getFileFsPath ext (uri doc))
                  (offsetAt scriptDoc position) = Some references \<longrightarrow>
                snd (findReferences ext host doc position) =
                  map (\<lambda>r. \<lparr>loc_uri = Uri_file ext (ref_fileName r),
                             loc_range = convertRange requesting (ref_textSpan r)\<rparr>)
                    references))"
proof -
  have d: "snd (findDefinition ext host doc position) =
     (case getDefinitionAtPosition service (getFileFsPath ext (uri doc))
             (offsetAt scriptDoc position) of
        None \<Rightarrow> []
      | Some definitions \<Rightarrow>
          (case getScriptDocByFsPath host (getFileFsPath ext (uri doc)) of
             Some requesting \<Rightarrow>
               map (\<lambda>d. \<lparr>loc_uri = Uri_file ext (def_fileName d),
                          loc_range = convertRange requesting (def_textSpan d)\<rparr>) definitions
           | None \<Rightarrow> []))"
    using upd inc
    by (simp add: findDefinition_def languageServiceIncludesFile_def Let_def
          concat_map_option_case split: option.splits)
  have r: "snd (findReferences ext host doc position) =
     (case getReferencesAtPosition service (getFileFsPath ext (uri doc))
             (offsetAt scriptDoc position) of
        None \<Rightarrow> []
      | Some references \<Rightarrow>
          (case getScriptDocByFsPath host (getFileFsPath ext (uri doc)) of
             Some requesting \<Rightarrow>
               map (\<lambda>r. \<lparr>loc_uri = Uri_file ext (ref_fileName r),
                          loc_range = convertRange requesting (ref_textSpan r)\<rparr>) references
           | None \<Rightarrow> []))"
    using upd inc
    by (simp add: findReferences_def languageServiceIncludesFile_def Let_def
          concat_map_option_case split: option.splits)
  show ?thesis
    by (simp add: d r split: option.splits)
qed

theorem locations_resolved_against_requesting_document_witness:
  "updateCurrentTextDocument (sample_host sample_scriptDoc sample_navigator) sample_doc
     = (sample_scriptDoc, sample_navigator)
   \<and> getFilePath sample_ext (uri sample_doc) \<in> set (getRootFileNames sample_navigator)
   \<and> snd (findDefinition sample_ext (sample_host sample_scriptDoc sample_navigator) sample_doc
           \<lparr>line = 0, character = 4\<rparr>)
       = [\<lparr>loc_uri = ''file:///b.ts'',
           loc_range = \<lparr>range_start = \<lparr>line = 1, character = 10\<rparr>,
                        range_end = \<lparr>line = 1, character = 10\<rparr>\<rparr>\<rparr>]
   \<and> snd (findReferences sample_ext (sample_host sample_scriptDoc sample_navigator) sample_doc
           \<lparr>line = 0, character = 4\<rparr>)
       = [\<lparr>loc_uri = ''file:///a.vue'',
           loc_range = \<lparr>range_start = \<lparr>line = 0, character = 4\<rparr>,
                        range_end = \<lparr>line = 0, character = 5\<rparr>\<rparr>\<rparr>,
          \<lparr>loc_uri = ''file:///b.ts'',
           loc_range = \<lparr>range_start = \<lparr>line = 1, character = 1\<rparr>,
                        range_end = \<lparr>line = 1, character = 2\<rparr>\<rparr>\<rparr>]
   \<and> snd (findDefinition sample_ext
           ((sample_host sample_scriptDoc sample_navigator)
              \<lparr>getScriptDocByFsPath := (\<lambda>path. None)\<rparr>)
           sample_doc \<lparr>line = 0, character = 4\<rparr>) = []"
proof -
  have upd: "updateCurrentTextDocument (sample_host sample_scriptDoc sample_navigator) sample_doc
     = (sample_scriptDoc, sample_navigator)"
    by (simp add: sample_host_def)
  have upd': "updateCurrentTextDocument
      ((sample_host sample_scriptDoc sample_navigator)\<lparr>getScriptDocByFsPath := (\<lambda>path. None)\<rparr>)
      sample_doc = (sample_scriptDoc, sample_navigator)"
    by (simp add: sample_host_def)
  have none: "getScriptDocByFsPath
      ((sample_host sample_scriptDoc sample_navigator)\<lparr>getScriptDocByFsPath := (\<lambda>path. None)\<rparr>)
      (getFileFsPath sample_ext (uri sample_doc)) = None"
    by simp
  have inc: "getFilePath sample_ext (uri sample_doc) \<in> set (getRootFileNames sample_navigator)"
    by (simp add: sample_ext_def sample_doc_def sample_navigator_def sample_service_def)
  have fp: "getFileFsPath sample_ext (uri sample_doc) = ''/a.vue''"
    by (simp add: sample_ext_def sample_doc_def)
  have req: "getScriptDocByFsPath (sample_host sample_scriptDoc sample_navigator)
      (getFileFsPath sample_ext (uri sample_doc)) = Some sample_scriptDoc"
    by (simp add: fp sample_host_def sample_scriptDoc_def)
  have ds: "getDefinitionAtPosition sample_navigator (getFileFsPath sample_ext (uri sample_doc))
       (offsetAt sample_scriptDoc \<lparr>line = 0, character = 4\<rparr>)
     = Some [\<lparr>def_fileName = ''/b.ts'',
              def_textSpan = \<lparr>span_start = 100, span_length = 5\<rparr>\<rparr>]"
    by (simp add: sample_navigator_def)
  have rs: "getReferencesAtPosition sample_navigator (getFileFsPath sample_ext (uri sample_doc))
       (offsetAt sample_scriptDoc \<lparr>line = 0, character = 4\<rparr>)
     = Some [\<lparr>ref_fileName = ''/a.vue'',
                    ref_textSpan = \<lparr>span_start = 4, span_length = 1\<rparr>, isWriteAccess = True\<rparr>,
                   \<lparr>ref_fileName = ''/b.ts'',
                    ref_textSpan = \<lparr>span_start = 12, span_length = 1\<rparr>,
                    isWriteAccess = False\<rparr>]"
    by (simp add: sample_navigator_def)
  have pos: "positionAt sample_scriptDoc 100 = \<lparr>line = 1, character = 10\<rparr>"
    "positionAt sample_scriptDoc 105 = \<lparr>line = 1, character = 10\<rparr>"
    "positionAt sample_scriptDoc 4 = \<lparr>line = 0, character = 4\<rparr>"
    "positionAt sample_scriptDoc 5 = \<lparr>line = 0, character = 5\<rparr>"
    "positionAt sample_scriptDoc 12 = \<lparr>line = 1, character = 1\<rparr>"
    "positionAt sample_scriptDoc 13 = \<lparr>line = 1, character = 2\<rparr>"
    by (simp_all add: positionAt_def getLineOffsets_def sample_scriptDoc_def CR_def LF_def
          findLine.simps)
  have uris: "Uri_file sample_ext ''/b.ts'' = ''file:///b.ts''"
    "Uri_file sample_ext ''/a.vue'' = ''file:///a.vue''"
    by (simp_all add: sample_ext_def)
  note main = locations_resolved_against_requesting_document
    [OF upd inc, of "\<lparr>line = 0, character = 4\<rparr>"]
  from main req ds have
    "snd (findDefinition sample_ext (sample_host sample_scriptDoc sample_navigator) sample_doc
           \<lparr>line = 0, character = 4\<rparr>)
     = map (\<lambda>d. \<lparr>loc_uri = Uri_file sample_ext (def_fileName d),
                 loc_range = convertRange sample_scriptDoc (def_textSpan d)\<rparr>)
         [\<lparr>def_fileName = ''/b.ts'', def_textSpan = \<lparr>span_start = 100, span_length = 5\<rparr>\<rparr>]"
    by blast
  then have a: "snd (findDefinition sample_ext (sample_host sample_scriptDoc sample_navigator)
           sample_doc \<lparr>line = 0, character = 4\<rparr>)
       = [\<lparr>loc_uri = ''file:///b.ts'',
           loc_range = \<lparr>range_start = \<lparr>line = 1, character = 10\<rparr>,
                        range_end = \<lparr>line = 1, character = 10\<rparr>\<rparr>\<rparr>]"
    by (simp add: convertRange_def pos uris)
  from main req rs have
    "snd (findReferences sample_ext (sample_host sample_scriptDoc sample_navigator) sample_doc
           \<lparr>line = 0, character = 4\<rparr>)
     = map (\<lambda>r. \<lparr>loc_uri = Uri_file sample_ext (ref_fileName r),
                 loc_range = convertRange sample_scriptDoc (ref_textSpan r)\<rparr>)
         [\<lparr>ref_fileName = ''/a.vue'',
                    ref_textSpan = \<lparr>span_start = 4, span_length = 1\<rparr>, isWriteAccess = True\<rparr>,
                   \<lparr>ref_fileName = ''/b.ts'',
                    ref_textSpan = \<lparr>span_start = 12, span_length = 1\<rparr>,
                    isWriteAccess = False\<rparr>]"
    by blast
  then have b: "snd (findReferences sample_ext (sample_host sample_scriptDoc sample_navigator)
           sample_doc \<lparr>line = 0, character = 4\<rparr>)
       = [\<lparr>loc_uri = ''file:///a.vue'',
           loc_range = \<lparr>range_start = \<lparr>line = 0, character = 4\<rparr>,
                        range_end = \<lparr>line = 0, character = 5\<rparr>\<rparr>\<rparr>,
          \<lparr>loc_uri = ''file:///b.ts'',
           loc_range = \<lparr>range_start = \<lparr>line = 1, character = 1\<rparr>,
                        range_end = \<lparr>line = 1, character = 2\<rparr>\<rparr>\<rparr>]"
    by (simp add: convertRange_def pos uris)
  from locations_resolved_against_requesting_document
    [OF upd' inc, of "\<lparr>line = 0, character = 4\<rparr>"] none
  have c: "snd (findDefinition sample_ext
           ((sample_host sample_scriptDoc sample_navigator)
              \<lparr>getScriptDocByFsPath := (\<lambda>path. None)\<rparr>)
           sample_doc \<lparr>line = 0, character = 4\<rparr>) = []"
    by blast
  from upd inc a b c show ?thesis by simp
qed

section \<open>Construction of the mode without a workspace\<close>

text \<open>
  C10. Called with a workspace path that is \<^verbatim>\<open>null\<close>, \<^verbatim>\<open>undefined\<close> or the empty
  string, \<^verbatim>\<open>getJavascriptMode\<close> returns the fallback mode, \<^verbatim>\<open>nullMode\<close> extended with
  a \<^verbatim>\<open>findComponents\<close> that gives the empty list for every document without touching
  an engine, and creates neither a document cache nor a service host.
\<close>

theorem getJavascriptMode_without_workspace:
  assumes "workspacePath = Null \<or> workspacePath = Undefined \<or> workspacePath = Value []"
  shows "fst (getJavascriptMode nullMode getLanguageModelCache getServiceHost documentRegions
                workspacePath) = []
       \<and> (\<exists>fc. snd (getJavascriptMode nullMode getLanguageModelCache getServiceHost
                       documentRegions workspacePath) = NullScriptMode nullMode fc
               \<and> (\<forall>document. fc document = []))
       \<and> (\<forall>ext document.
             mode_findComponents ext
               (snd (getJavascriptMode nullMode getLanguageModelCache getServiceHost
                       documentRegions workspacePath)) document = ([], []))"
  using assms by (auto simp: getJavascriptMode_def)

theorem getJavascriptMode_without_workspace_witness:
  "fst (getJavascriptMode () (\<lambda>maxEntries cleanupInterval regions. ())
          (\<lambda>path jsDocuments. sample_host sample_scriptDoc sample_navigator) () (Value [])) = []
   \<and> mode_findComponents sample_ext
        (snd (getJavascriptMode () (\<lambda>maxEntries cleanupInterval regions. ())
                (\<lambda>path jsDocuments. sample_host sample_scriptDoc sample_navigator) () (Value [])))
        sample_scriptDoc = ([], [])
   \<and> fst (getJavascriptMode () (\<lambda>maxEntries cleanupInterval regions. ())
          (\<lambda>path jsDocuments. sample_host sample_scriptDoc sample_navigator) () (Value ''/ws''))
       = [CreateLanguageModelCache 10 60, CreateServiceHost ''/ws'']"
proof -
  have h: "(Value [] :: string nullable) = Null \<or> (Value [] :: string nullable) = Undefined
      \<or> (Value [] :: string nullable) = Value []"
    by simp
  have pos: "fst (getJavascriptMode () (\<lambda>maxEntries cleanupInterval regions. ())
          (\<lambda>path jsDocuments. sample_host sample_scriptDoc sample_navigator) () (Value ''/ws''))
       = [CreateLanguageModelCache 10 60, CreateServiceHost ''/ws'']"
    by (simp add: getJavascriptMode_def)
  from getJavascriptMode_without_workspace [OF h, of "()" "\<lambda>maxEntries cleanupInterval regions. ()"
      "\<lambda>path jsDocuments. sample_host sample_scriptDoc sample_navigator" "()"] pos
  show ?thesis by blast
qed

section \<open>Formatting\<close>

lemma format_result:
  assumes upd: "updateCurrentTextDocument host doc = (scriptDoc, service)"
    and fmt: "format ext host config doc rng formatParams = (calls, Inr result)"
  shows "\<exists>settings.
           calls = [GetFormattingEditsForRange (getFileFsPath ext (uri doc))
                      (offsetAt scriptDoc (range_start rng)) (offsetAt scriptDoc (range_end rng))
                      settings]
         \<and> result =
             (case getFormattingEditsForRange service (getFileFsPath ext (uri doc))
                     (offsetAt scriptDoc (range_start rng)) (offsetAt scriptDoc (range_end rng))
                     settings of
                None \<Rightarrow> []
              | Some es \<Rightarrow>
                  map (\<lambda>edit. \<lparr>edit_range = convertRange scriptDoc (change_span edit),
                               newText = change_newText edit\<rparr>)
                    (filter (\<lambda>edit. offsetAt scriptDoc (range_start rng)
                                        \<le> span_start (change_span edit)
                                    \<and> span_start (change_span edit)
                                        + span_length (change_span edit)
                                        \<le> offsetAt scriptDoc (range_end rng)) es))"
  using fmt upd
  by (auto simp: format_def Let_def split: sum.splits option.splits)

text \<open>
  C3. Of the edits the engine returns for the offset interval \<open>[start, end]\<close> of the
  requested range, \<^verbatim>\<open>format\<close> keeps exactly those whose span lies within the interval,
  in the engine's order, each with its span converted to a range: an edit that starts
  before \<open>start\<close> or ends after \<open>end\<close> (one character past it, say) is not kept, an
  edit spanning exactly \<open>start\<close> to \<open>end\<close> is kept, and no edits from the engine give
  the empty list.
\<close>

theorem format_clips_to_range:
  assumes upd: "updateCurrentTextDocument host doc = (scriptDoc, service)"
    and fmt: "format ext host config doc rng formatParams
                = ([GetFormattingEditsForRange path start end' settings], Inr result)"
  shows "start = offsetAt scriptDoc (range_start rng) \<and> end' = offsetAt scriptDoc (range_end rng)
       \<and> (getFormattingEditsForRange service path start end' settings = None \<longrightarrow> result = [])
       \<and> (getFormattingEditsForRange service path start end' settings = Some [] \<longrightarrow> result = [])
       \<and> (\<forall>es. getFormattingEditsForRange service path start end' settings = Some es \<longrightarrow>
            (\<exists>kept.
               result = map (\<lambda>edit. \<lparr>edit_range = convertRange scriptDoc (change_span edit),
                                      newText = change_newText edit\<rparr>) kept
             \<and> kept = filter (\<lambda>edit. start \<le> span_start (change_span edit)
                                   \<and> span_start (change_span edit)
                                       + span_length (change_span edit) \<le> end') es
             \<and> (\<forall>edit \<in> set es.
                   span_start (change_span edit) < start
                   \<or> end' < span_start (change_span edit) + span_length (change_span edit)
                   \<longrightarrow> edit \<notin> set kept)
             \<and> (\<forall>edit \<in> set es.
                   span_start (change_span edit) + span_length (change_span edit) = end' + 1
                   \<longrightarrow> edit \<notin> set kept)
             \<and> (\<forall>edit \<in> set es.
                   span_start (change_span edit) = start
                   \<and> span_start (change_span edit) + span_length (change_span edit) = end'
                   \<longrightarrow> edit \<in> set kept)))"
proof -
  from format_result [OF upd fmt] obtain st where
    calls: "[GetFormattingEditsForRange path start end' settings] =
            [GetFormattingEditsForRange (getFileFsPath ext (uri doc))
               (offsetAt scriptDoc (range_start rng)) (offsetAt scriptDoc (range_end rng)) st]"
    and res: "result =
             (case getFormattingEditsForRange service (getFileFsPath ext (uri doc))
                     (offsetAt scriptDoc (range_start rng)) (offsetAt scriptDoc (range_end rng))
                     st of
                None \<Rightarrow> []
              | Some es \<Rightarrow>
                  map (\<lambda>edit. \<lparr>edit_range = convertRange scriptDoc (change_span edit),
                               newText = change_newText edit\<rparr>)
                    (filter (\<lambda>edit. offsetAt scriptDoc (range_start rng)
                                        \<le> span_start (change_span edit)
                                    \<and> span_start (change_span edit)
                                        + span_length (change_span edit)
                                        \<le> offsetAt scriptDoc (range_end rng)) es))"
    by blast
  from calls have eqs: "path = getFileFsPath ext (uri doc)"
    "start = offsetAt scriptDoc (range_start rng)" "end' = offsetAt scriptDoc (range_end rng)"
    "settings = st" by simp_all
  have res': "result =
             (case getFormattingEditsForRange service path start end' settings of
                None \<Rightarrow> []
              | Some es \<Rightarrow>
                  map (\<lambda>edit. \<lparr>edit_range = convertRange scriptDoc (change_span edit),
                               newText = change_newText edit\<rparr>)
                    (filter (\<lambda>edit. start \<le> span_start (change_span edit)
                                    \<and> span_start (change_span edit)
                                        + span_length (change_span edit) \<le> end') es))"
    unfolding eqs by (rule res)
  show ?thesis
    using eqs(2,3) res' by auto
qed


theorem format_clips_to_range_witness:
  "updateCurrentTextDocument (sample_host sample_scriptDoc sample_formatter) sample_doc
     = (sample_scriptDoc, sample_formatter)
   \<and> format sample_ext (sample_host sample_scriptDoc sample_formatter) (sample_config sample_js)
         sample_doc sample_range sample_options
       = ([GetFormattingEditsForRange ''/a.vue'' 0 10 sample_settings],
          Inr [\<lparr>edit_range = \<lparr>range_start = \<lparr>line = 0, character = 0\<rparr>,
                              range_end = \<lparr>line = 0, character = 10\<rparr>\<rparr>,
                 newText = ''var x = 1''\<rparr>,
               \<lparr>edit_range = \<lparr>range_start = \<lparr>line = 0, character = 3\<rparr>,
                              range_end = \<lparr>line = 0, character = 5\<rparr>\<rparr>,
                 newText = ''x''\<rparr>])
   \<and> offsetAt sample_scriptDoc (range_start sample_range) = 0
   \<and> offsetAt sample_scriptDoc (range_end sample_range) = 10"
proof -
  have upd: "updateCurrentTextDocument (sample_host sample_scriptDoc sample_formatter) sample_doc
     = (sample_scriptDoc, sample_formatter)"
    by (simp add: sample_host_def)
  have lo: "getLineOffsets sample_scriptDoc = [0, 11]"
    by (simp add: getLineOffsets_def sample_scriptDoc_def CR_def LF_def)
  have off: "offsetAt sample_scriptDoc (range_start sample_range) = 0"
    "offsetAt sample_scriptDoc (range_end sample_range) = 10"
    by (simp_all add: offsetAt_def lo sample_range_def)
  have pos: "positionAt sample_scriptDoc 0 = \<lparr>line = 0, character = 0\<rparr>"
    "positionAt sample_scriptDoc 10 = \<lparr>line = 0, character = 10\<rparr>"
    "positionAt sample_scriptDoc 3 = \<lparr>line = 0, character = 3\<rparr>"
    "positionAt sample_scriptDoc 5 = \<lparr>line = 0, character = 5\<rparr>"
    by (simp_all add: positionAt_def getLineOffsets_def sample_scriptDoc_def CR_def LF_def
          findLine.simps)
  have js: "config_vetur_format_js (sample_config sample_js) = Inr sample_js"
    by (simp add: config_vetur_format_js_def sample_config_def)
  have ins: "get_prop sample_js ''InsertSpaceBeforeFunctionParenthesis'' = Inr (JBool False)"
    by (simp add: sample_js_def)
  have fmt: "format sample_ext (sample_host sample_scriptDoc sample_formatter)
         (sample_config sample_js) sample_doc sample_range sample_options
       = ([GetFormattingEditsForRange ''/a.vue'' 0 10 sample_settings],
          Inr [\<lparr>edit_range = \<lparr>range_start = \<lparr>line = 0, character = 0\<rparr>,
                              range_end = \<lparr>line = 0, character = 10\<rparr>\<rparr>,
                 newText = ''var x = 1''\<rparr>,
               \<lparr>edit_range = \<lparr>range_start = \<lparr>line = 0, character = 3\<rparr>,
                              range_end = \<lparr>line = 0, character = 5\<rparr>\<rparr>,
                 newText = ''x''\<rparr>])"
  proof -
    have ini: "truthy (scriptInitialIndent sample_options) = False"
      by (simp add: sample_options_def)
    have ed: "\<And>p s e st. getFormattingEditsForRange sample_formatter p s e st = Some sample_edits"
      by (simp add: sample_formatter_def)
    have fp: "getFileFsPath sample_ext (uri sample_doc) = ''/a.vue''"
      by (simp add: sample_ext_def sample_doc_def)
    show ?thesis
      by (simp add: format_def js ins upd off ini ed fp Let_def sample_settings_def
            sample_edits_def convertRange_def pos)
  qed
  from format_clips_to_range [OF upd fmt]
  have "0 = offsetAt sample_scriptDoc (range_start sample_range)
      \<and> 10 = offsetAt sample_scriptDoc (range_end sample_range)"
    by blast
  with upd fmt show ?thesis by simp
qed

text \<open>
  C4. The settings object \<^verbatim>\<open>format\<close> hands to the engine should carry the same value
  under \<^verbatim>\<open>InsertSpaceAfterFunctionKeywordForAnonymousFunctions\<close> and under
  \<^verbatim>\<open>InsertSpaceBeforeFunctionParenthesis\<close>. The source sets the first from the
  configuration's override and not from the merged settings: with an override that
  does not mention \<^verbatim>\<open>InsertSpaceBeforeFunctionParenthesis\<close> the engine receives
  \<^verbatim>\<open>undefined\<close> for the first and the default \<^verbatim>\<open>true\<close> for the second.
\<close>

theorem format_settings_diverge:
  "map (\<lambda>settings.
          (setting settings ''InsertSpaceAfterFunctionKeywordForAnonymousFunctions'',
           setting settings ''InsertSpaceBeforeFunctionParenthesis''))
     (settings_passed (fst (format sample_ext (sample_host sample_scriptDoc sample_formatter)
        (sample_config (JObj [])) sample_doc sample_range sample_options)))
   = [(JUndefined, JBool True)]"
  by (simp add: format_def config_vetur_format_js_def sample_config_def sample_host_def
        convertOptions_def lodash_assign_def setting_def Let_def sample_options_def)

text \<open>With an override that does mention the key, both settings carry its value.\<close>

lemma format_settings_agree_sample:
  "map (\<lambda>settings.
          (setting settings ''InsertSpaceAfterFunctionKeywordForAnonymousFunctions'',
           setting settings ''InsertSpaceBeforeFunctionParenthesis''))
     (settings_passed (fst (format sample_ext (sample_host sample_scriptDoc sample_formatter)
        (sample_config sample_js) sample_doc sample_range sample_options)))
   = [(JBool False, JBool False)]"
  by (simp add: format_def config_vetur_format_js_def sample_config_def sample_host_def
        sample_js_def convertOptions_def lodash_assign_def setting_def Let_def sample_options_def)

end
